theory Spec2Isabelle
  imports Main "HOL-Library.AList"
begin

section \<open>JavaScript strings, arrays and exceptions\<close>

text \<open>
  The plugin is TypeScript.  An exception is a value of type \<open>error\<close>: \<open>TypeError\<close> is what
  the runtime throws when a property of \<open>undefined\<close> is read or written, \<open>Error msg\<close> is
  \<^verbatim>\<open>throw new Error(msg)\<close>.  A function that can throw returns \<open>error + 'a\<close>.
\<close>

datatype error = TypeError | Error string

text \<open>\<^verbatim>\<open>s.split(c)\<close> for a one-character separator: never empty, \<^verbatim>\<open>"".split(c)\<close> is \<^verbatim>\<open>[""]\<close>.\<close>

fun js_split :: "char \<Rightarrow> string \<Rightarrow> string list" where
  "js_split c [] = [[]]"
| "js_split c (x # xs) =
     (if x = c then [] # js_split c xs
      else (case js_split c xs of [] \<Rightarrow> [[x]] | w # ws \<Rightarrow> (x # w) # ws))"

text \<open>\<^verbatim>\<open>a.join(sep)\<close>.\<close>

fun js_join :: "string \<Rightarrow> string list \<Rightarrow> string" where
  "js_join sep [] = []"
| "js_join sep [w] = w"
| "js_join sep (w # v # ws) = w @ sep @ js_join sep (v # ws)"

text \<open>
  \<^verbatim>\<open>a[i]\<close> on an array: \<open>None\<close> is \<^verbatim>\<open>undefined\<close>.  A negative index is an absent property, it
  does not count from the end.
\<close>

definition js_index :: "'a list \<Rightarrow> int \<Rightarrow> 'a option" where
  "js_index xs i = (if 0 \<le> i \<and> i < int (length xs) then Some (xs ! nat i) else None)"

definition endsWith :: "string \<Rightarrow> string \<Rightarrow> bool" where
  "endsWith s suf = (length suf \<le> length s \<and> drop (length s - length suf) s = suf)"

definition startsWith :: "string \<Rightarrow> string \<Rightarrow> bool" where
  "startsWith s pre = (take (length pre) s = pre)"

text \<open>
  A \<^verbatim>\<open>Set<string>\<close> that is iterated keeps insertion order: a list without repetition.
  \<^verbatim>\<open>add\<close> of a member changes nothing, \<^verbatim>\<open>delete\<close> removes the member.
\<close>

definition set_add :: "'a \<Rightarrow> 'a list \<Rightarrow> 'a list" where
  "set_add x xs = (if x \<in> set xs then xs else xs @ [x])"

definition set_delete :: "'a \<Rightarrow> 'a list \<Rightarrow> 'a list" where
  "set_delete x xs = filter (\<lambda>y. y \<noteq> x) xs"

section \<open>The document tree (cheerio)\<close>

text \<open>
  An object with string values (an attribute mapping, front-matter data) is an association
  list in insertion order; \<^verbatim>\<open>o[k] = v\<close> is \<open>AList.update\<close>, \<^verbatim>\<open>k in o\<close> and \<^verbatim>\<open>o[k]\<close> are \<open>map_of\<close>
  (own properties only: names inherited from \<^verbatim>\<open>Object.prototype\<close> are outside the model).

  A node is an element or anything else (text).  HTML text is represented by the forest it
  parses to: \<^verbatim>\<open>cheerio.load\<close> and \<^verbatim>\<open>$.html()\<close> are the change of representation between a
  string and its forest, and the renderer's output is taken in parsed form.
\<close>

type_synonym attrs = "(string \<times> string) list"

datatype node = Element string attrs "node list" | Text string

type_synonym html = "node list"

text \<open>
  Element names are compared modulo case.  cheerio's parser gives every element a lowercase
  name (\<^verbatim>\<open><Card>\<close> in a page is an element named \<^verbatim>\<open>card\<close>), and the tag name of a selector is
  lowercased before it is compared with an element's name: \<^verbatim>\<open>$("Button")\<close> selects every
  \<^verbatim>\<open><button>\<close>.  \<open>toLowerCase\<close> lowers the capitals A to Z; comparing the lowercased names of
  both sides makes the selection independent of the case in which a forest spells a name.
\<close>

definition lower_char :: "char \<Rightarrow> char" where
  "lower_char c =
     (case map_of (zip ''ABCDEFGHIJKLMNOPQRSTUVWXYZ'' ''abcdefghijklmnopqrstuvwxyz'') c of
        None \<Rightarrow> c
      | Some l \<Rightarrow> l)"

definition toLowerCase :: "string \<Rightarrow> string" where
  "toLowerCase s = map lower_char s"

text \<open>
  \<^verbatim>\<open>$(tag)\<close> for a tag that is a plain element name: every element of that name modulo
  case, in document order, nested matches included.
\<close>

fun select :: "string \<Rightarrow> node \<Rightarrow> node list" where
  "select t (Text s) = []"
| "select t (Element n a kids) =
     (if toLowerCase n = toLowerCase t then [Element n a kids] else [])
       @ concat (map (select t) kids)"

definition select_all :: "string \<Rightarrow> html \<Rightarrow> node list" where
  "select_all t doc = concat (map (select t) doc)"

text \<open>
  \<^verbatim>\<open>$(tag).each(function () { ... $el.replaceWith(expansion) })\<close>.  The selection is taken once,
  before the first callback.  Replacing a match detaches it from the document with its
  subtree, so a match nested in another match is replaced inside a detached subtree only: in
  the document exactly the outermost matches are replaced, each by \<open>f\<close> of the element as
  it was selected, and the inserted nodes are not visited again in this loop.  The next
  selection, for the next tag or in the next pass, does visit them: an expansion that holds
  an element of the tag's own name, modulo case, is selected again.
\<close>

fun replaceWith :: "string \<Rightarrow> (node \<Rightarrow> html) \<Rightarrow> node \<Rightarrow> html" where
  "replaceWith t f (Text s) = [Text s]"
| "replaceWith t f (Element n a kids) =
     (if toLowerCase n = toLowerCase t then f (Element n a kids)
      else [Element n a (concat (map (replaceWith t f) kids))])"

definition replace_all :: "string \<Rightarrow> (node \<Rightarrow> html) \<Rightarrow> html \<Rightarrow> html" where
  "replace_all t f doc = concat (map (replaceWith t f) doc)"

text \<open>
  \<^verbatim>\<open>$el.attr()\<close> and \<^verbatim>\<open>$el.html()\<close>.  The type of \<^verbatim>\<open>attr()\<close> is
  \<^verbatim>\<open>Record<string, string> | undefined\<close>; for an element cheerio returns its attribute
  object, empty when the element has no attributes.
\<close>

fun dom_attr :: "node \<Rightarrow> attrs option" where
  "dom_attr (Element n a kids) = Some a"
| "dom_attr (Text s) = None"

fun dom_html :: "node \<Rightarrow> html" where
  "dom_html (Element n a kids) = kids"
| "dom_html (Text s) = []"

text \<open>
  \<^verbatim>\<open>$("head").children("style")\<close>: the elements named style whose parent is named head, in
  document order.
\<close>

fun head_style_children :: "bool \<Rightarrow> node \<Rightarrow> node list" where
  "head_style_children in_head (Text s) = []"
| "head_style_children in_head (Element n a kids) =
     (if in_head \<and> n = ''style'' then [Element n a kids] else [])
       @ concat (map (head_style_children (n = ''head'')) kids)"

text \<open>
  \<^verbatim>\<open>$(headStyleChildren[0]).html(g(old content))\<close>: the first such element gets new
  children; \<open>None\<close> when there is none.
\<close>

fun set_first_style :: "(html \<Rightarrow> html) \<Rightarrow> bool \<Rightarrow> node \<Rightarrow> node option"
  and set_first_style_list :: "(html \<Rightarrow> html) \<Rightarrow> bool \<Rightarrow> node list \<Rightarrow> node list option"
where
  "set_first_style g in_head (Text s) = None"
| "set_first_style g in_head (Element n a kids) =
     (if in_head \<and> n = ''style'' then Some (Element n a (g kids))
      else map_option (Element n a) (set_first_style_list g (n = ''head'') kids))"
| "set_first_style_list g in_head [] = None"
| "set_first_style_list g in_head (x # xs) =
     (case set_first_style g in_head x of
        Some x' \<Rightarrow> Some (x' # xs)
      | None \<Rightarrow> map_option ((#) x) (set_first_style_list g in_head xs))"

text \<open>
  The forest of \<^verbatim>\<open>existingStyleContent + template_css\<close>: text appended to serialized
  content parses to the same nodes with the text joined to a trailing text node.
\<close>

definition html_concat_text :: "html \<Rightarrow> string \<Rightarrow> html" where
  "html_concat_text h s =
     (if s = [] then h
      else (case rev h of
              Text t # r \<Rightarrow> rev r @ [Text (t @ s)]
            | _ \<Rightarrow> h @ [Text s]))"

fun text_content :: "html \<Rightarrow> string" where
  "text_content [] = []"
| "text_content (Text s # ns) = s @ text_content ns"
| "text_content (Element n a kids # ns) = text_content ns"

section \<open>The collaborators\<close>

text \<open>
  Template variables are strings (usage attributes), HTML (the reserved \<open>content\<close>) or a
  function (the \<open>forward\<close> helper).  The configuration holds the renderer
  (\<^verbatim>\<open>nunjucksEnvironment.renderString\<close>) and the stylesheet preprocessor; both are taken as
  functions that return.  \<^verbatim>\<open>matter\<close> (gray-matter) splits a template file into front-matter
  data and body; \<^verbatim>\<open>htmlElementAttributes\<close> is the table of the html-element-attributes
  package, from an element name (or \<^verbatim>\<open>"*"\<close>) to attribute names.
\<close>

datatype jsval = Str string | Html html | Fn "string list \<Rightarrow> string"

record config =
  renderString :: "string \<Rightarrow> (string \<times> jsval) list \<Rightarrow> html"
  styleSheetPreprocessor :: "string \<Rightarrow> string"

record front_matter =
  fm_content :: string
  fm_data :: "(string \<times> string) list"

type_synonym element_attributes = "string \<Rightarrow> string list option"

section \<open>src/index.ts\<close>

subsection \<open>class TagTemplate\<close>

record TagTemplate =
  tag_name :: string
  template_content :: string
  stylesheet_path :: string

text \<open>
  The constructor, given the text read from \<open>template_filepath\<close>.  Without a \<open>tag\<close> in the
  front matter it evaluates \<^verbatim>\<open>template_filepath.split("/")[-1].split(".")[0]\<close>; calling
  \<^verbatim>\<open>split\<close> on \<^verbatim>\<open>undefined\<close> throws a TypeError.
\<close>

definition new_TagTemplate :: "(string \<Rightarrow> front_matter) \<Rightarrow> string \<Rightarrow> string \<Rightarrow> error + TagTemplate" where
  "new_TagTemplate matter template_filepath contents =
     (let fm = matter contents;
          stylesheet = (case map_of (fm_data fm) ''stylesheet'' of None \<Rightarrow> [] | Some p \<Rightarrow> p)
      in case map_of (fm_data fm) ''tag'' of
           None \<Rightarrow>
             (case js_index (js_split CHR ''/'' template_filepath) (- 1) of
                None \<Rightarrow> Inl TypeError
              | Some base \<Rightarrow>
                  Inr \<lparr>tag_name = (case js_split CHR ''.'' base of [] \<Rightarrow> [] | stem # _ \<Rightarrow> stem),
                       template_content = fm_content fm, stylesheet_path = stylesheet\<rparr>)
         | Some tg \<Rightarrow>
             Inr \<lparr>tag_name = tg, template_content = fm_content fm, stylesheet_path = stylesheet\<rparr>)"

subsection \<open>process_template_directory\<close>

text \<open>
  A directory is the list of its entries as \<^verbatim>\<open>readdirSync\<close> gives them; \<open>File name text\<close> is
  a file with what \<^verbatim>\<open>readFileSync\<close> reads, \<open>Dir name entries\<close> a subdirectory.  The registry
  \<^verbatim>\<open>this.templates\<close> is an object: an association list in insertion order, which is the order
  of \<^verbatim>\<open>Object.entries\<close> for keys that are not array indices.
\<close>

datatype dirent = File string string | Dir string "dirent list"

type_synonym templates = "(string \<times> TagTemplate) list"

definition template_suffix :: "string \<Rightarrow> bool" where
  "template_suffix filename = (endsWith filename ''.html'' \<or> endsWith filename ''.njk'')"

fun process_template_directory ::
  "(string \<Rightarrow> front_matter) \<Rightarrow> string \<Rightarrow> dirent list \<Rightarrow> templates \<Rightarrow> error + templates" where
  "process_template_directory matter dir [] T = Inr T"
| "process_template_directory matter dir (File filename contents # rest) T =
     (if \<not> template_suffix filename then process_template_directory matter dir rest T
      else (case new_TagTemplate matter (dir @ ''/'' @ filename) contents of
              Inl e \<Rightarrow> Inl e
            | Inr template \<Rightarrow>
                process_template_directory matter dir rest
                  (AList.update (tag_name template) template T)))"
| "process_template_directory matter dir (Dir filename sub # rest) T =
     (if \<not> template_suffix filename then process_template_directory matter dir rest T
      else (case process_template_directory matter (dir @ ''/'' @ filename) sub T of
              Inl e \<Rightarrow> Inl e
            | Inr T' \<Rightarrow> process_template_directory matter dir rest T'))"

subsection \<open>transform: one pass over the registry\<close>

text \<open>
  The \<open>forward\<close> closure handed to the renderer.  \<open>forward_key\<close> is one round of the loop
  over the arguments, on the set \<open>expanded_keys\<close>; \<open>forward_keys\<close> is the loop, from the
  empty set.
\<close>

definition forward_key :: "attrs \<Rightarrow> string list \<Rightarrow> string \<Rightarrow> string list" where
  "forward_key attributes expanded_keys key =
     (if key = ''*'' then fold set_add (map fst attributes) expanded_keys
      else if startsWith key ''!'' then set_delete (drop 1 key) expanded_keys
      else set_add key expanded_keys)"

definition forward_keys :: "attrs \<Rightarrow> string list \<Rightarrow> string list" where
  "forward_keys attributes keys = fold (\<lambda>key acc. forward_key attributes acc key) keys []"

definition forward :: "attrs \<Rightarrow> string list \<Rightarrow> string" where
  "forward attributes keys =
     (let expanded_keys =
            (if length keys > 0 then forward_keys attributes keys
             else fold set_add (map fst attributes) [])
      in js_join '' ''
           (concat (map (\<lambda>key. case map_of attributes key of
                                   None \<Rightarrow> []
                                 | Some v \<Rightarrow> [key @ ''='' @ v]) expanded_keys)))"

text \<open>
  The callback of \<^verbatim>\<open>$(tag).each\<close>, as a function of \<^verbatim>\<open>$el.attr()\<close> and \<^verbatim>\<open>$el.html()\<close>: the
  expansion that replaces the element.
\<close>

definition render_variables :: "attrs \<Rightarrow> html \<Rightarrow> (string \<times> jsval) list" where
  "render_variables attributes el_html =
     AList.update ''content'' (Html el_html) (map (\<lambda>(k, v). (k, Str v)) attributes)"

definition each_callback :: "config \<Rightarrow> TagTemplate \<Rightarrow> attrs option \<Rightarrow> html \<Rightarrow> html" where
  "each_callback cfg template el_attr el_html =
     (let attributes = (case el_attr of None \<Rightarrow> [] | Some a \<Rightarrow> a)
      in renderString cfg (template_content template)
           (AList.update ''forward'' (Fn (forward attributes))
              (render_variables attributes el_html)))"

definition expand :: "config \<Rightarrow> TagTemplate \<Rightarrow> node \<Rightarrow> html" where
  "expand cfg template el = each_callback cfg template (dom_attr el) (dom_html el)"

text \<open>
  One round of the loop over \<^verbatim>\<open>Object.entries(this.templates)\<close>.  The state is the document
  \<open>$\<close>, \<open>template_css\<close>, \<open>did_transform\<close> and the set \<open>processed_tags\<close> the caller passed in.
\<close>

definition transform_tag ::
  "config \<Rightarrow> string \<times> TagTemplate \<Rightarrow> html \<times> string \<times> bool \<times> string set
     \<Rightarrow> html \<times> string \<times> bool \<times> string set" where
  "transform_tag cfg entry st =
     (case entry of (tag, template) \<Rightarrow>
      case st of (doc, template_css, did_transform, processed_tags) \<Rightarrow>
        let has_tag = (select_all tag doc \<noteq> []);
            doc' = replace_all tag (expand cfg template) doc;
            did_transform' = (did_transform \<or> has_tag)
        in if \<not> has_tag then (doc', template_css, did_transform', processed_tags)
           else if tag \<in> processed_tags then (doc', template_css, did_transform', processed_tags)
           else (doc', template_css @ styleSheetPreprocessor cfg (stylesheet_path template),
                 did_transform', insert tag processed_tags))"

definition transform ::
  "config \<Rightarrow> templates \<Rightarrow> html \<Rightarrow> string set \<Rightarrow> html \<times> string \<times> bool \<times> string set" where
  "transform cfg T html_content processed_tags =
     fold (transform_tag cfg) T (html_content, [], False, processed_tags)"

subsection \<open>recursive_template_transform\<close>

text \<open>
  The \<^verbatim>\<open>while (true)\<close> loop, with fuel: one unit per call of \<open>transform\<close>, \<open>None\<close> when the fuel
  is used up before a pass reports no rewrite.
\<close>

fun transform_loop ::
  "nat \<Rightarrow> config \<Rightarrow> templates \<Rightarrow> html \<Rightarrow> string \<Rightarrow> string set
     \<Rightarrow> (html \<times> string \<times> string set) option" where
  "transform_loop 0 cfg T html_content template_css processed_tags = None"
| "transform_loop (Suc fuel) cfg T html_content template_css processed_tags =
     (case transform cfg T html_content processed_tags of
        (html, css, transformed, processed_tags') \<Rightarrow>
          if \<not> transformed then Some (html, template_css @ css, processed_tags')
          else transform_loop fuel cfg T html (template_css @ css) processed_tags')"

text \<open>
  What the function returns: \<open>Undefined\<close> is the bare \<^verbatim>\<open>return;\<close>.  In that branch the style
  element is appended to the local tree \<open>$\<close> only, which is dropped.  \<open>inject_css\<close> is the
  part of the function after the loop, the same lines in \<open>recursive_transform\<close> of the draft.
  Its case \<open>None\<close> stands for \<^verbatim>\<open>headStyleChildren[0]\<close> being absent, which the test before it
  excludes.
\<close>

datatype returned = Undefined | Returned html

definition inject_css :: "html \<Rightarrow> string \<Rightarrow> returned" where
  "inject_css html_content template_css =
     (if concat (map (head_style_children False) html_content) = [] then Undefined
      else (case set_first_style_list (\<lambda>existing. html_concat_text existing template_css)
                   False html_content of
              None \<Rightarrow> Returned html_content
            | Some doc \<Rightarrow> Returned doc))"

definition recursive_template_transform ::
  "nat \<Rightarrow> config \<Rightarrow> templates \<Rightarrow> html \<Rightarrow> returned option" where
  "recursive_template_transform fuel cfg T html_content =
     (case transform_loop fuel cfg T html_content [] {} of
        None \<Rightarrow> None
      | Some (html, template_css, processed_tags) \<Rightarrow> Some (inject_css html template_css))"

section \<open>The draft with implicit attribute forwarding (src/unnamed/part_001)\<close>

text \<open>
  In this draft the registry maps a tag name to the raw text of the template file; the
  front matter is parsed again where it is needed.
\<close>

type_synonym raw_templates = "(string \<times> string) list"

subsection \<open>add_template and process_template_directory\<close>

definition add_template ::
  "(string \<Rightarrow> front_matter) \<Rightarrow> raw_templates \<Rightarrow> string \<Rightarrow> string \<Rightarrow> error + raw_templates" where
  "add_template matter T template default_tag_name =
     (case map_of (fm_data (matter template)) ''tag'' of
        Some tg \<Rightarrow>
          if map_of T tg \<noteq> None
          then Inl (Error (''There is already a tag template named '' @ tg))
          else Inr (AList.update tg template T)
      | None \<Rightarrow>
          if map_of T default_tag_name \<noteq> None
          then Inl (Error (''Inferred tag name '' @ default_tag_name @ '' already exists''))
          else Inr (AList.update default_tag_name template T))"

definition file_stem :: "string \<Rightarrow> string" where
  "file_stem filename = (case js_split CHR ''.'' filename of [] \<Rightarrow> [] | stem # _ \<Rightarrow> stem)"

fun process_template_directory1 ::
  "(string \<Rightarrow> front_matter) \<Rightarrow> string \<Rightarrow> dirent list \<Rightarrow> raw_templates \<Rightarrow> error + raw_templates" where
  "process_template_directory1 matter dir [] T = Inr T"
| "process_template_directory1 matter dir (File filename contents # rest) T =
     (if \<not> template_suffix filename then process_template_directory1 matter dir rest T
      else (case add_template matter T contents (file_stem filename) of
              Inl e \<Rightarrow> Inl e
            | Inr T' \<Rightarrow> process_template_directory1 matter dir rest T'))"
| "process_template_directory1 matter dir (Dir filename sub # rest) T =
     (if \<not> template_suffix filename then process_template_directory1 matter dir rest T
      else (case process_template_directory1 matter (dir @ ''/'' @ filename) sub T of
              Inl e \<Rightarrow> Inl e
            | Inr T' \<Rightarrow> process_template_directory1 matter dir rest T'))"

subsection \<open>forward_html_attributes\<close>

text \<open>
  \<^verbatim>\<open>expanded_template.root().children()\<close> are the top-level elements of the rendered
  fragment; \<open>top_element\<close> is the first of them, \<^verbatim>\<open>undefined\<close> when there is none.
\<close>

fun is_element :: "node \<Rightarrow> bool" where
  "is_element (Element n a kids) = True"
| "is_element (Text s) = False"

definition root_children :: "html \<Rightarrow> node list" where
  "root_children h = filter is_element h"

fun top_element :: "html \<Rightarrow> (string \<times> attrs) option" where
  "top_element [] = None"
| "top_element (Text s # ns) = top_element ns"
| "top_element (Element n a kids # ns) = Some (n, a)"

fun set_top_attribs :: "attrs \<Rightarrow> html \<Rightarrow> html" where
  "set_top_attribs a' [] = []"
| "set_top_attribs a' (Text s # ns) = Text s # set_top_attribs a' ns"
| "set_top_attribs a' (Element n a kids # ns) = Element n a' kids # ns"

text \<open>
  The two \<^verbatim>\<open>if\<close> statements on \<open>class\<close> and \<open>id\<close>, the same lines in both drafts.  Each reads
  \<^verbatim>\<open>top_element.attribs["class"]\<close>; joining \<^verbatim>\<open>undefined\<close> gives the empty string.
\<close>

definition merge_class_id :: "attrs \<Rightarrow> string \<Rightarrow> string \<Rightarrow> string" where
  "merge_class_id top_attribs attr v =
     (let existing_class = (case map_of top_attribs ''class'' of None \<Rightarrow> [] | Some c \<Rightarrow> c);
          v1 = (if attr = ''class'' \<and> map_of top_attribs ''class'' \<noteq> None
                then js_join '' '' (js_split CHR '' '' v @ [existing_class]) else v)
      in if attr = ''id'' \<and> map_of top_attribs ''id'' \<noteq> None
         then js_join '' '' (js_split CHR '' '' v1 @ [existing_class]) else v1)"

definition allowed_attributes :: "element_attributes \<Rightarrow> string \<Rightarrow> string list" where
  "allowed_attributes hea top_name =
     (case hea top_name of None \<Rightarrow> [] | Some ex \<Rightarrow> ex)
       @ (case hea ''*'' of None \<Rightarrow> [] | Some g \<Rightarrow> g)"

text \<open>One round of the loop over \<^verbatim>\<open>Object.entries(attributes)\<close>, on the root's attributes.\<close>

definition forward_attribute ::
  "element_attributes \<Rightarrow> raw_templates \<Rightarrow> string \<Rightarrow> attrs \<Rightarrow> string \<times> string \<Rightarrow> attrs" where
  "forward_attribute hea T top_name top_attribs entry =
     (case entry of (attr, v) \<Rightarrow>
        if map_of T top_name = None \<and> attr \<notin> set (allowed_attributes hea top_name)
        then top_attribs
        else AList.update attr (merge_class_id top_attribs attr v) top_attribs)"

definition forward_html_attributes ::
  "element_attributes \<Rightarrow> raw_templates \<Rightarrow> html \<Rightarrow> attrs \<Rightarrow> error + html" where
  "forward_html_attributes hea T html_content attributes =
     (if length (root_children html_content) > 1
      then Inl (Error ''Template definition must have only one top level tag'')
      else (case top_element html_content of
              None \<Rightarrow> if attributes = [] then Inr html_content else Inl TypeError
            | Some (top_name, top_attribs) \<Rightarrow>
                Inr (set_top_attribs
                       (fold (\<lambda>entry acc. forward_attribute hea T top_name acc entry)
                          attributes top_attribs)
                       html_content)))"

subsection \<open>transform and recursive_transform\<close>

definition each_callback1 ::
  "config \<Rightarrow> element_attributes \<Rightarrow> raw_templates \<Rightarrow> string \<Rightarrow> attrs option \<Rightarrow> html \<Rightarrow> error + html" where
  "each_callback1 cfg hea T body el_attr el_html =
     (let expansion = renderString cfg body
            (render_variables (case el_attr of None \<Rightarrow> [] | Some a \<Rightarrow> a) el_html)
      in case el_attr of
           None \<Rightarrow> Inr expansion
         | Some attributes \<Rightarrow> forward_html_attributes hea T expansion attributes)"

definition expand1 ::
  "config \<Rightarrow> element_attributes \<Rightarrow> raw_templates \<Rightarrow> string \<Rightarrow> node \<Rightarrow> error + html" where
  "expand1 cfg hea T body el = each_callback1 cfg hea T body (dom_attr el) (dom_html el)"

fun first_error :: "(error + 'a) list \<Rightarrow> error option" where
  "first_error [] = None"
| "first_error (Inl e # rs) = Some e"
| "first_error (Inr x # rs) = first_error rs"

fun expansion_of :: "error + html \<Rightarrow> html" where
  "expansion_of (Inr h) = h"
| "expansion_of (Inl e) = []"

text \<open>
  One round of the loop over the registry.  The callback runs for every selected element in
  document order, nested matches included, and the first exception leaves the function.
\<close>

definition transform1_tag ::
  "config \<Rightarrow> element_attributes \<Rightarrow> (string \<Rightarrow> front_matter) \<Rightarrow> raw_templates
     \<Rightarrow> string \<times> string \<Rightarrow> html \<times> string \<times> bool \<times> string set
     \<Rightarrow> error + html \<times> string \<times> bool \<times> string set" where
  "transform1_tag cfg hea matter T entry st =
     (case entry of (tag, template) \<Rightarrow>
      case st of (doc, template_css, did_transform, processed_tags) \<Rightarrow>
        let body = fm_content (matter template);
            sheet = map_of (fm_data (matter template)) ''stylesheet'';
            has_tag = (select_all tag doc \<noteq> [])
        in case first_error (map (expand1 cfg hea T body) (select_all tag doc)) of
             Some e \<Rightarrow> Inl e
           | None \<Rightarrow>
               let doc' = replace_all tag (\<lambda>el. expansion_of (expand1 cfg hea T body el)) doc;
                   did_transform' = (did_transform \<or> has_tag)
               in Inr (case sheet of
                         None \<Rightarrow> (doc', template_css, did_transform', processed_tags)
                       | Some stylesheet_path' \<Rightarrow>
                           if \<not> has_tag then (doc', template_css, did_transform', processed_tags)
                           else if tag \<in> processed_tags
                             then (doc', template_css, did_transform', processed_tags)
                           else (doc', template_css @ styleSheetPreprocessor cfg stylesheet_path',
                                 did_transform', insert tag processed_tags)))"

fun transform1_entries ::
  "config \<Rightarrow> element_attributes \<Rightarrow> (string \<Rightarrow> front_matter) \<Rightarrow> raw_templates
     \<Rightarrow> (string \<times> string) list \<Rightarrow> html \<times> string \<times> bool \<times> string set
     \<Rightarrow> error + html \<times> string \<times> bool \<times> string set" where
  "transform1_entries cfg hea matter T [] st = Inr st"
| "transform1_entries cfg hea matter T (entry # entries) st =
     (case transform1_tag cfg hea matter T entry st of
        Inl e \<Rightarrow> Inl e
      | Inr st' \<Rightarrow> transform1_entries cfg hea matter T entries st')"

definition transform1 ::
  "config \<Rightarrow> element_attributes \<Rightarrow> (string \<Rightarrow> front_matter) \<Rightarrow> raw_templates
     \<Rightarrow> html \<Rightarrow> string set \<Rightarrow> error + html \<times> string \<times> bool \<times> string set" where
  "transform1 cfg hea matter T html_content processed_tags =
     transform1_entries cfg hea matter T T (html_content, [], False, processed_tags)"

fun transform1_loop ::
  "nat \<Rightarrow> config \<Rightarrow> element_attributes \<Rightarrow> (string \<Rightarrow> front_matter) \<Rightarrow> raw_templates
     \<Rightarrow> html \<Rightarrow> string \<Rightarrow> string set \<Rightarrow> (error + html \<times> string \<times> string set) option" where
  "transform1_loop 0 cfg hea matter T html_content template_css processed_tags = None"
| "transform1_loop (Suc fuel) cfg hea matter T html_content template_css processed_tags =
     (case transform1 cfg hea matter T html_content processed_tags of
        Inl e \<Rightarrow> Some (Inl e)
      | Inr (html, css, transformed, processed_tags') \<Rightarrow>
          if \<not> transformed then Some (Inr (html, template_css @ css, processed_tags'))
          else transform1_loop fuel cfg hea matter T html (template_css @ css) processed_tags')"

definition recursive_transform ::
  "nat \<Rightarrow> config \<Rightarrow> element_attributes \<Rightarrow> (string \<Rightarrow> front_matter) \<Rightarrow> raw_templates
     \<Rightarrow> html \<Rightarrow> (error + returned) option" where
  "recursive_transform fuel cfg hea matter T html_content =
     (case transform1_loop fuel cfg hea matter T html_content [] {} of
        None \<Rightarrow> None
      | Some (Inl e) \<Rightarrow> Some (Inl e)
      | Some (Inr (html, template_css, processed_tags)) \<Rightarrow>
          Some (Inr (inject_css html template_css)))"

section \<open>The first draft (src/unnamed/part_000): forward_html_attributes\<close>

text \<open>
  The older forwarder reads \<^verbatim>\<open>htmlElementAttributes[top_element.name].concat(...)\<close> with no
  test for an unknown element name, and has no case for a root that is a template tag.
\<close>

definition forward_attribute0 ::
  "element_attributes \<Rightarrow> string \<Rightarrow> attrs \<Rightarrow> string \<times> string \<Rightarrow> error + attrs" where
  "forward_attribute0 hea top_name top_attribs entry =
     (case entry of (attr, v) \<Rightarrow>
        case hea top_name of
          None \<Rightarrow> Inl TypeError
        | Some ex \<Rightarrow>
            if attr \<notin> set (ex @ (case hea ''*'' of None \<Rightarrow> [] | Some g \<Rightarrow> g))
            then Inr top_attribs
            else Inr (AList.update attr (merge_class_id top_attribs attr v) top_attribs))"

fun forward_entries0 ::
  "element_attributes \<Rightarrow> string \<Rightarrow> attrs \<Rightarrow> (string \<times> string) list \<Rightarrow> error + attrs" where
  "forward_entries0 hea top_name top_attribs [] = Inr top_attribs"
| "forward_entries0 hea top_name top_attribs (entry # entries) =
     (case forward_attribute0 hea top_name top_attribs entry of
        Inl e \<Rightarrow> Inl e
      | Inr a' \<Rightarrow> forward_entries0 hea top_name a' entries)"

definition forward_html_attributes0 :: "element_attributes \<Rightarrow> html \<Rightarrow> attrs \<Rightarrow> error + html" where
  "forward_html_attributes0 hea html_content attributes =
     (if length (root_children html_content) > 1
      then Inl (Error ''Template definition must have only one top level tag'')
      else (case top_element html_content of
              None \<Rightarrow> if attributes = [] then Inr html_content else Inl TypeError
            | Some (top_name, top_attribs) \<Rightarrow>
                (case forward_entries0 hea top_name top_attribs attributes of
                   Inl e \<Rightarrow> Inl e
                 | Inr a' \<Rightarrow> Inr (set_top_attribs a' html_content))))"

section \<open>Notions used to state the properties\<close>

subsection \<open>Arguments of the forward helper\<close>

text \<open>An argument that names a key: neither \<^verbatim>\<open>"*"\<close> nor an exclusion \<^verbatim>\<open>"!k"\<close>.\<close>

definition plain_key :: "string \<Rightarrow> bool" where
  "plain_key key = (key \<noteq> ''*'' \<and> \<not> startsWith key ''!'')"

subsection \<open>The name a template is registered under\<close>

definition registered_name :: "(string \<Rightarrow> front_matter) \<Rightarrow> string \<Rightarrow> string \<Rightarrow> string" where
  "registered_name matter template default_tag_name =
     (case map_of (fm_data (matter template)) ''tag'' of
        None \<Rightarrow> default_tag_name
      | Some tg \<Rightarrow> tg)"

subsection \<open>What a pass does to the document, and which tags it uses\<close>

text \<open>
  A pass is determined by the list of \<open>(tag, f)\<close> where \<open>f\<close> maps a usage element of \<open>tag\<close>
  to what replaces it: \<open>expansions\<close> for src/index.ts, \<open>expansions1 ... T Ts\<close> for the entries
  \<open>Ts\<close> of the registry \<open>T\<close> of the draft with implicit forwarding (where a pass that throws
  has no document).  \<open>pass_doc\<close> is the
  document after the pass; \<open>pass_matched\<close> lists the tags that had a match when their turn
  came (\<open>has_tag\<close>); \<open>used_tags n\<close> collects them over the passes the loop makes with fuel \<open>n\<close>.
\<close>

type_synonym expansion_table = "(string \<times> (node \<Rightarrow> html)) list"

definition expansions :: "config \<Rightarrow> templates \<Rightarrow> expansion_table" where
  "expansions cfg T = map (\<lambda>(tag, template). (tag, expand cfg template)) T"

definition expansions1 ::
  "config \<Rightarrow> element_attributes \<Rightarrow> (string \<Rightarrow> front_matter) \<Rightarrow> raw_templates
     \<Rightarrow> raw_templates \<Rightarrow> expansion_table" where
  "expansions1 cfg hea matter T Ts =
     map (\<lambda>(tag, template).
            (tag, \<lambda>el. expansion_of (expand1 cfg hea T (fm_content (matter template)) el))) Ts"

fun pass_doc :: "expansion_table \<Rightarrow> html \<Rightarrow> html" where
  "pass_doc [] doc = doc"
| "pass_doc ((tag, f) # fs) doc = pass_doc fs (replace_all tag f doc)"

fun pass_matched :: "expansion_table \<Rightarrow> html \<Rightarrow> string list" where
  "pass_matched [] doc = []"
| "pass_matched ((tag, f) # fs) doc =
     (if select_all tag doc \<noteq> [] then [tag] else []) @ pass_matched fs (replace_all tag f doc)"

fun used_tags :: "nat \<Rightarrow> expansion_table \<Rightarrow> html \<Rightarrow> string set" where
  "used_tags 0 fs doc = {}"
| "used_tags (Suc n) fs doc =
     set (pass_matched fs doc)
       \<union> (if pass_matched fs doc = [] then {} else used_tags n fs (pass_doc fs doc))"

text \<open>The compiled stylesheets of a list of registry entries, concatenated in order.\<close>

definition sheets :: "config \<Rightarrow> (string \<times> TagTemplate) list \<Rightarrow> string" where
  "sheets cfg es = concat (map (\<lambda>e. styleSheetPreprocessor cfg (stylesheet_path (snd e))) es)"

definition sheets1 :: "config \<Rightarrow> (string \<Rightarrow> front_matter) \<Rightarrow> (string \<times> string) list \<Rightarrow> string" where
  "sheets1 cfg matter es =
     concat (map (\<lambda>e. case map_of (fm_data (matter (snd e))) ''stylesheet'' of
                          None \<Rightarrow> []
                        | Some p \<Rightarrow> styleSheetPreprocessor cfg p) es)"

text \<open>The tags whose entry declares a stylesheet in its front matter (the draft).\<close>

definition styled_tags :: "(string \<Rightarrow> front_matter) \<Rightarrow> raw_templates \<Rightarrow> string list" where
  "styled_tags matter T =
     map fst (filter (\<lambda>e. map_of (fm_data (matter (snd e))) ''stylesheet'' \<noteq> None) T)"

subsection \<open>Nesting depth of template usage\<close>

text \<open>
  The usage tree of a document has the template usages of the document and of every
  expansion as nodes; a usage is below another when it is part of its expansion, be it
  written in the template's body or passed in as content.  Its depth is measured with a
  profile \<open>r\<close>: a tag name (in lowercase) that is a template has two numbers \<open>(s, c)\<close>, the
  depth \<open>s\<close> of the usages that the body nests beside the content and the number \<open>c\<close> of
  usages that the body wraps around the content; another name has none.  An element of a
  template tag with content of depth \<open>d\<close> has depth \<open>1 + max s (c + d)\<close>, any other element
  the depth of its children, and the nesting depth of a document is the largest depth of its
  nodes: the length of the longest chain in the usage tree.

  Usage is acyclic with profile \<open>r\<close> when exactly the registered tags have a profile and
  every expansion is strictly shallower than the usage element it replaces: a usage with
  content of depth \<open>d\<close> expands to a fragment of depth at most \<open>max s (c + d)\<close>.  A template
  whose body wraps the content in plain elements has profile \<open>(0, 0)\<close>; one whose body also
  uses such a template beside the content, \<open>(1, 0)\<close>; one that wraps the content in it,
  \<open>(0, 1)\<close>.  No profile exists for a template whose body uses its own tag, nor for one
  whose body has an element of the tag's name in another case.  \<open>phi\<close> is the potential used
  inside a pass: one more than the depth on every path through an element whose tag has had
  its turn.
\<close>

primrec max_list :: "nat list \<Rightarrow> nat" where
  "max_list [] = 0"
| "max_list (x # xs) = max x (max_list xs)"

type_synonym profile = "string \<Rightarrow> (nat \<times> nat) option"

definition usage_depth :: "profile \<Rightarrow> string \<Rightarrow> nat \<Rightarrow> nat" where
  "usage_depth r n d = (case r (toLowerCase n) of None \<Rightarrow> d | Some (s, c) \<Rightarrow> 1 + max s (c + d))"

fun weight :: "profile \<Rightarrow> node \<Rightarrow> nat" where
  "weight r (Text s) = 0"
| "weight r (Element n a kids) = usage_depth r n (max_list (map (weight r) kids))"

definition nesting_depth :: "profile \<Rightarrow> html \<Rightarrow> nat" where
  "nesting_depth r doc = max_list (map (weight r) doc)"


definition shallower :: "profile \<Rightarrow> string \<Rightarrow> (node \<Rightarrow> html) \<Rightarrow> bool" where
  "shallower r t f =
     (\<forall>n a kids. toLowerCase n = toLowerCase t \<longrightarrow>
          nesting_depth r (f (Element n a kids)) < weight r (Element n a kids))"

definition acyclic_usage :: "expansion_table \<Rightarrow> profile \<Rightarrow> bool" where
  "acyclic_usage fs r =
     ((\<forall>n. r n \<noteq> None \<longrightarrow> n \<in> (\<lambda>e. toLowerCase (fst e)) ` set fs) \<and>
      (\<forall>(tag, f) \<in> set fs. r (toLowerCase tag) \<noteq> None \<and> shallower r tag f))"

subsection \<open>Concrete collaborators and inputs\<close>

text \<open>
  A renderer that knows a few template bodies, a preprocessor that wraps the path in a CSS
  comment, front matter for these bodies, and a small attribute table.  Documents are spelled
  as the parser gives them, with element names in lowercase.
\<close>

definition card_src :: string where
  "card_src = ''<div class=card>{{ content }}</div>''"

definition panel_src :: string where
  "panel_src = ''<section>{{ content }}</section>''"

definition pair_src :: string where
  "pair_src = ''<div></div><div></div>''"

definition button_src :: string where
  "button_src = ''<button class=btn>{{ label }}</button>''"

definition box_src :: string where
  "box_src = ''<div><Icon></Icon>{{ content }}</div>''"

definition icon_src :: string where
  "icon_src = ''<i></i>''"

definition note_src :: string where
  "note_src = ''<span>{{ content }}</span>''"

definition ex_content :: "(string \<times> jsval) list \<Rightarrow> html" where
  "ex_content vars = (case map_of vars ''content'' of Some (Html h) \<Rightarrow> h | _ \<Rightarrow> [])"

definition ex_label :: "(string \<times> jsval) list \<Rightarrow> html" where
  "ex_label vars = (case map_of vars ''label'' of Some (Str l) \<Rightarrow> (if l = [] then [] else [Text l]) | _ \<Rightarrow> [])"

definition ex_render :: "string \<Rightarrow> (string \<times> jsval) list \<Rightarrow> html" where
  "ex_render src vars =
     (if src = card_src then [Element ''div'' [(''class'', ''card'')] (ex_content vars)]
      else if src = panel_src then [Element ''section'' [] (ex_content vars)]
      else if src = pair_src then [Element ''div'' [] [], Element ''div'' [] []]
      else if src = button_src then [Element ''button'' [(''class'', ''btn'')] (ex_label vars)]
      else if src = box_src then [Element ''div'' [] (Element ''icon'' [] [] # ex_content vars)]
      else if src = icon_src then [Element ''i'' [] []]
      else if src = note_src then [Element ''span'' [] (ex_content vars)]
      else [])"

definition ex_cfg :: config where
  "ex_cfg = \<lparr>renderString = ex_render,
             styleSheetPreprocessor = (\<lambda>path. ''/* '' @ path @ '' */'')\<rparr>"

definition ex_matter :: "string \<Rightarrow> front_matter" where
  "ex_matter src =
     \<lparr>fm_content = src,
      fm_data = (if src = card_src then [(''tag'', ''Card''), (''stylesheet'', ''card.css'')]
                 else if src = panel_src then [(''tag'', ''Card'')]
                 else if src = pair_src then [(''tag'', ''Pair''), (''stylesheet'', ''pair.css'')]
                 else [])\<rparr>"

definition ex_hea :: element_attributes where
  "ex_hea n =
     (if n = ''*'' then Some [''class'', ''id'', ''style'', ''title'']
      else if n = ''div'' then Some [''align'']
      else if n = ''button'' then Some [''disabled'', ''type'']
      else None)"

definition ex_card :: TagTemplate where
  "ex_card = \<lparr>tag_name = ''Card'', template_content = card_src, stylesheet_path = ''card.css''\<rparr>"

definition ex_pair :: TagTemplate where
  "ex_pair = \<lparr>tag_name = ''Pair'', template_content = pair_src, stylesheet_path = ''pair.css''\<rparr>"

definition ex_doc :: "html \<Rightarrow> html \<Rightarrow> html" where
  "ex_doc head_kids body_kids =
     [Element ''html'' [] [Element ''head'' [] head_kids, Element ''body'' [] body_kids]]"

definition ex_button :: TagTemplate where
  "ex_button = \<lparr>tag_name = ''Button'', template_content = button_src, stylesheet_path = []\<rparr>"

definition ex_box :: TagTemplate where
  "ex_box = \<lparr>tag_name = ''Box'', template_content = box_src, stylesheet_path = []\<rparr>"

definition ex_icon :: TagTemplate where
  "ex_icon = \<lparr>tag_name = ''Icon'', template_content = icon_src, stylesheet_path = []\<rparr>"

definition ex_note :: TagTemplate where
  "ex_note = \<lparr>tag_name = ''Note'', template_content = note_src, stylesheet_path = []\<rparr>"

definition two_cards :: html where
  "two_cards = ex_doc [Element ''style'' [] []]
     [Element ''card'' [] [Element ''card'' [] [Text ''in'']], Element ''card'' [] [Text ''World'']]"


definition boxed_note :: html where
  "boxed_note = ex_doc [Element ''style'' [] []] [Element ''box'' [] [Element ''note'' [] [Text ''x'']]]"

definition box_registry :: templates where
  "box_registry = [(''Icon'', ex_icon), (''Note'', ex_note), (''Box'', ex_box)]"

definition box_profile :: profile where
  "box_profile n =
     (if n = ''box'' then Some (1, 0)
      else if n = ''icon'' \<or> n = ''note'' then Some (0, 0)
      else None)"

definition button_doc :: html where
  "button_doc = ex_doc [] [Element ''button'' [(''class'', ''btn'')] []]"

section \<open>Facts about the string and set helpers\<close>

lemma js_split_nonempty: "js_split c s \<noteq> []"
  by (induction s) (auto split: list.splits)

lemma js_join_head: "js_join sep ((x # w) # ws) = x # js_join sep (w # ws)"
  by (cases ws) auto

lemma js_join_split: "js_join [c] (js_split c s) = s"
proof (induction s)
  case Nil
  then show ?case by simp
next
  case (Cons x xs)
  show ?case
  proof (cases "js_split c xs")
    case Nil
    then show ?thesis using js_split_nonempty[of c xs] by simp
  next
    case (Cons w ws)
    with Cons.IH have ih: "js_join [c] (w # ws) = xs" by simp
    have "js_join [c] ([] # w # ws) = c # js_join [c] (w # ws)" by simp
    then show ?thesis using Cons ih by (simp add: js_join_head del: js_join.simps)
  qed
qed

lemma js_join_snoc: "ws \<noteq> [] \<Longrightarrow> js_join sep (ws @ [w]) = js_join sep ws @ sep @ w"
  by (induction sep ws rule: js_join.induct) auto

lemma js_join_split_snoc: "js_join [c] (js_split c s @ [w]) = s @ [c] @ w"
  by (simp add: js_join_snoc js_split_nonempty js_join_split)

lemma set_fold_set_add: "set (fold set_add xs acc) = set acc \<union> set xs"
  by (induction xs arbitrary: acc) (auto simp: set_add_def)

lemma fold_set_add_distinct: "distinct (acc @ xs) \<Longrightarrow> fold set_add xs acc = acc @ xs"
  by (induction xs arbitrary: acc) (auto simp: set_add_def)

lemma distinct_fold_set_add: "distinct acc \<Longrightarrow> distinct (fold set_add xs acc)"
  by (induction xs arbitrary: acc) (auto simp: set_add_def)

text \<open>The lowercase form of the names that occur in the examples.\<close>

lemma lower_char_simps:
  "lower_char CHR ''B'' = CHR ''b''" "lower_char CHR ''C'' = CHR ''c''"
  "lower_char CHR ''I'' = CHR ''i''" "lower_char CHR ''N'' = CHR ''n''"
  "lower_char CHR ''P'' = CHR ''p''"
  "lower_char CHR ''a'' = CHR ''a''" "lower_char CHR ''b'' = CHR ''b''"
  "lower_char CHR ''c'' = CHR ''c''" "lower_char CHR ''d'' = CHR ''d''"
  "lower_char CHR ''e'' = CHR ''e''" "lower_char CHR ''h'' = CHR ''h''"
  "lower_char CHR ''i'' = CHR ''i''" "lower_char CHR ''k'' = CHR ''k''"
  "lower_char CHR ''l'' = CHR ''l''" "lower_char CHR ''m'' = CHR ''m''"
  "lower_char CHR ''n'' = CHR ''n''" "lower_char CHR ''o'' = CHR ''o''"
  "lower_char CHR ''p'' = CHR ''p''" "lower_char CHR ''r'' = CHR ''r''"
  "lower_char CHR ''s'' = CHR ''s''" "lower_char CHR ''t'' = CHR ''t''"
  "lower_char CHR ''u'' = CHR ''u''" "lower_char CHR ''v'' = CHR ''v''"
  "lower_char CHR ''x'' = CHR ''x''" "lower_char CHR ''y'' = CHR ''y''"
  by (simp_all add: lower_char_def)

lemmas lower_simps = toLowerCase_def lower_char_simps

lemma lower_names:
  "toLowerCase ''Card'' = ''card''" "toLowerCase ''Button'' = ''button''"
  "toLowerCase ''Box'' = ''box''" "toLowerCase ''Icon'' = ''icon''"
  "toLowerCase ''Note'' = ''note''"
  "toLowerCase ''card'' = ''card''" "toLowerCase ''button'' = ''button''"
  "toLowerCase ''box'' = ''box''" "toLowerCase ''icon'' = ''icon''"
  "toLowerCase ''note'' = ''note''"
  "toLowerCase ''html'' = ''html''" "toLowerCase ''head'' = ''head''"
  "toLowerCase ''body'' = ''body''" "toLowerCase ''style'' = ''style''"
  "toLowerCase ''div'' = ''div''" "toLowerCase ''span'' = ''span''"
  "toLowerCase ''i'' = ''i''"
  by (simp_all add: lower_simps)

lemmas ex_defs = card_src_def panel_src_def pair_src_def button_src_def ex_content_def
  ex_render_def ex_cfg_def ex_matter_def ex_hea_def ex_card_def ex_pair_def ex_doc_def
  two_cards_def lower_simps

lemmas pass_defs = transform_def transform_tag_def select_all_def replace_all_def expand_def
  each_callback_def render_variables_def

lemmas pass1_defs = transform1_def transform1_tag_def select_all_def replace_all_def expand1_def
  each_callback1_def render_variables_def forward_html_attributes_def root_children_def
  forward_attribute_def allowed_attributes_def merge_class_id_def

section \<open>C1: the style element of the finished document\<close>

lemma text_content_append: "text_content (h @ h') = text_content h @ text_content h'"
  by (induction h rule: text_content.induct) auto

lemma text_content_html_concat_text: "text_content (html_concat_text h s) = text_content h @ s"
proof (cases "s = []")
  case True
  then show ?thesis by (simp add: html_concat_text_def)
next
  case False
  show ?thesis
  proof (cases "rev h")
    case Nil
    then show ?thesis using False by (simp add: html_concat_text_def)
  next
    case (Cons x r)
    then have h: "h = rev r @ [x]" by (metis rev_rev_ident rev.simps(2))
    show ?thesis using False Cons
      by (cases x) (simp_all add: html_concat_text_def h text_content_append)
  qed
qed

lemma inject_css_Undefined:
  "inject_css doc css = Undefined \<longleftrightarrow> concat (map (head_style_children False) doc) = []"
  by (simp add: inject_css_def split: option.splits)

lemma set_first_style_defined:
  "head_style_children b n \<noteq> [] \<Longrightarrow> set_first_style g b n \<noteq> None"
  "concat (map (head_style_children b) ns) \<noteq> [] \<Longrightarrow> set_first_style_list g b ns \<noteq> None"
proof (induction g b n and g b ns rule: set_first_style_set_first_style_list.induct)
  case (1 g in_head s)
  then show ?case by simp
next
  case (2 g in_head n a kids)
  then show ?case by (auto split: if_splits)
next
  case (3 g in_head)
  then show ?case by simp
next
  case (4 g in_head x xs)
  then show ?case by (auto split: option.splits)
qed

lemma inject_css_existing:
  assumes "concat (map (head_style_children False) doc) \<noteq> []"
  shows "\<exists>doc'. set_first_style_list (\<lambda>existing. html_concat_text existing css) False doc = Some doc'
               \<and> inject_css doc css = Returned doc'"
  using set_first_style_defined(2)[OF assms, of "\<lambda>existing. html_concat_text existing css"] assms
  by (auto simp: inject_css_def)

lemma recursive_template_transform_no_style:
  "transform_loop fuel cfg T doc [] {} = Some (html, css, P) \<Longrightarrow>
   concat (map (head_style_children False) html) = [] \<Longrightarrow>
   recursive_template_transform fuel cfg T doc = Some Undefined"
  by (simp add: recursive_template_transform_def inject_css_def)

text \<open>
  With a style element in the head the first one gets the accumulated CSS after its own
  text and the document is returned; here two usages of \<open>Card\<close> and an existing rule.
\<close>

lemma existing_style_example:
  "recursive_template_transform 2 ex_cfg [(''Card'', ex_card)]
       (ex_doc [Element ''style'' [] [Text ''p {}'']]
               [Element ''card'' [] [Text ''World''], Element ''card'' [] []])
     = Some (Returned (ex_doc [Element ''style'' [] [Text ''p {}/* card.css */'']]
               [Element ''div'' [(''class'', ''card'')] [Text ''World''],
                Element ''div'' [(''class'', ''card'')] []]))"
  by (simp add: recursive_template_transform_def pass_defs inject_css_def html_concat_text_def
      numeral_2_eq_2 ex_defs)

text \<open>
  C1.  The claim: when the head holds no style element, the full expansion creates one
  holding the accumulated CSS and returns the finished document; when one exists the CSS is
  appended to its text and the document is returned.  The second half is what the code does.
  In the first case \<open>recursive_template_transform\<close> (src/index.ts) and \<open>recursive_transform\<close>
  (the draft) append the element to their local tree and leave through a bare
  \<^verbatim>\<open>return;\<close>: the caller gets \<^verbatim>\<open>undefined\<close>, not a document.  Evaluated on a document with an
  empty head and one usage of \<open>Card\<close>.
\<close>

theorem no_style_returns_undefined:
  "recursive_template_transform 2 ex_cfg [(''Card'', ex_card)]
       (ex_doc [] [Element ''card'' [] [Text ''World'']]) = Some Undefined
   \<and> recursive_transform 2 ex_cfg ex_hea ex_matter [(''Card'', card_src)]
       (ex_doc [] [Element ''card'' [] [Text ''World'']]) = Some (Inr Undefined)"
  by (simp add: recursive_template_transform_def recursive_transform_def pass_defs pass1_defs
      inject_css_def numeral_2_eq_2 ex_defs)

section \<open>C2: a template body with several roots\<close>

text \<open>
  In the draft every selected element whose body renders several roots makes the pass
  throw.  \<open>transform\<close> of src/index.ts has no exception of its own to throw.
\<close>

lemma expand1_multiple_roots:
  "1 < length (root_children (renderString cfg body (render_variables a kids))) \<Longrightarrow>
   expand1 cfg hea T body (Element n a kids) =
     Inl (Error ''Template definition must have only one top level tag'')"
  by (simp add: expand1_def each_callback1_def forward_html_attributes_def)

lemma first_error_Some: "r \<in> set rs \<Longrightarrow> r = Inl e \<Longrightarrow> first_error rs \<noteq> None"
  by (induction rs rule: first_error.induct) auto

lemma transform1_tag_multiple_roots:
  assumes "Element n a kids \<in> set (select_all tag doc)"
    and "1 < length (root_children (renderString cfg (fm_content (matter template)) (render_variables a kids)))"
  shows "\<exists>e. transform1_tag cfg hea matter T (tag, template) (doc, css, did, P) = Inl e"
proof -
  have "expand1 cfg hea T (fm_content (matter template)) (Element n a kids)
          \<in> set (map (expand1 cfg hea T (fm_content (matter template))) (select_all tag doc))"
    using assms(1) by simp
  then have "first_error (map (expand1 cfg hea T (fm_content (matter template))) (select_all tag doc)) \<noteq> None"
    using expand1_multiple_roots[OF assms(2)] by (rule first_error_Some)
  then show ?thesis by (auto simp: transform1_tag_def Let_def)
qed

text \<open>
  C2.  The claim: an occurrence whose rendered body has more than one top-level element
  makes the expansion fail, and nothing is produced.  \<open>transform\<close> of src/index.ts makes no
  such test: both roots go into the document and the loop goes on.  The draft with implicit
  forwarding does throw, from \<open>forward_html_attributes\<close>.  Evaluated on a document with one
  usage of \<open>Pair\<close>, whose body renders two sibling \<open>div\<close> elements.
\<close>

theorem multiple_roots_inserted:
  "recursive_template_transform 2 ex_cfg [(''Pair'', ex_pair)]
       (ex_doc [Element ''style'' [] []] [Element ''pair'' [] []])
     = Some (Returned (ex_doc [Element ''style'' [] [Text ''/* pair.css */'']]
                              [Element ''div'' [] [], Element ''div'' [] []]))
   \<and> recursive_transform 2 ex_cfg ex_hea ex_matter [(''Pair'', pair_src)]
       (ex_doc [Element ''style'' [] []] [Element ''pair'' [] []])
     = Some (Inl (Error ''Template definition must have only one top level tag''))"
  by (simp add: recursive_template_transform_def recursive_transform_def pass_defs pass1_defs
      inject_css_def html_concat_text_def numeral_2_eq_2 ex_defs)

section \<open>C3: merging class and id\<close>

lemma merge_class_id_class:
  "map_of a ''class'' = Some c \<Longrightarrow> merge_class_id a ''class'' v = v @ '' '' @ c"
  by (simp add: merge_class_id_def js_join_split_snoc)

lemma merge_class_id_id:
  "map_of a ''id'' = Some i \<Longrightarrow>
   merge_class_id a ''id'' v = v @ '' '' @ (case map_of a ''class'' of None \<Rightarrow> [] | Some c \<Rightarrow> c)"
  by (simp add: merge_class_id_def js_join_split_snoc)

text \<open>
  C3.  The claim: a forwarded \<open>class\<close> or \<open>id\<close> that the root already defines becomes the
  usage tokens followed by the root's tokens of that same attribute.  For \<open>class\<close> this is
  \<open>merge_class_id_class\<close>.  For \<open>id\<close> both drafts append
  \<^verbatim>\<open>top_element.attribs["class"]\<close> (\<open>merge_class_id_id\<close>): the root's \<open>id\<close> tokens are lost and
  its \<open>class\<close> tokens appear in the \<open>id\<close>.  Evaluated on the root
  \<^verbatim>\<open><button class="btn" id="base">\<close> with the usage attribute \<open>id = submit-btn\<close>.
\<close>

theorem id_merged_with_class:
  "forward_html_attributes ex_hea []
       [Element ''button'' [(''class'', ''btn''), (''id'', ''base'')] [Text ''Submit'']]
       [(''id'', ''submit-btn'')]
     = Inr [Element ''button'' [(''class'', ''btn''), (''id'', ''submit-btn btn'')] [Text ''Submit'']]
   \<and> forward_html_attributes0 ex_hea
       [Element ''button'' [(''class'', ''btn''), (''id'', ''base'')] [Text ''Submit'']]
       [(''id'', ''submit-btn'')]
     = Inr [Element ''button'' [(''class'', ''btn''), (''id'', ''submit-btn btn'')] [Text ''Submit'']]"
  by (simp add: forward_html_attributes_def forward_html_attributes0_def root_children_def
      forward_attribute_def forward_attribute0_def allowed_attributes_def merge_class_id_def ex_defs)

section \<open>C4: one stylesheet per used tag\<close>

lemma sheets_append: "sheets cfg (xs @ ys) = sheets cfg xs @ sheets cfg ys"
  by (simp add: sheets_def)

lemma sheets1_append: "sheets1 cfg matter (xs @ ys) = sheets1 cfg matter xs @ sheets1 cfg matter ys"
  by (simp add: sheets1_def)

lemma pass_matched_subset: "set (pass_matched fs doc) \<subseteq> fst ` set fs"
  by (induction fs doc rule: pass_matched.induct) auto

lemma fst_expansions: "map fst (expansions cfg T) = map fst T"
  by (induction T) (auto simp: expansions_def)

lemma fst_expansions1: "map fst (expansions1 cfg hea matter T Ts) = map fst Ts"
  by (induction Ts) (auto simp: expansions1_def)

lemma fold_transform_tag:
  "fold (transform_tag cfg) T (doc, css0, did0, P0) = (doc', css', did', P') \<Longrightarrow>
   doc' = pass_doc (expansions cfg T) doc \<and>
   did' = (did0 \<or> pass_matched (expansions cfg T) doc \<noteq> []) \<and>
   P' = P0 \<union> set (pass_matched (expansions cfg T) doc) \<and>
   (\<exists>es. set es \<subseteq> set T \<and> distinct (map fst es) \<and>
         fst ` set es = set (pass_matched (expansions cfg T) doc) - P0 \<and>
         css' = css0 @ sheets cfg es)"
proof (induction T arbitrary: doc css0 did0 P0)
  case Nil
  then show ?case by (auto simp: sheets_def expansions_def intro: exI[of _ "[]"])
next
  case (Cons entry T)
  obtain tag template where entry: "entry = (tag, template)" by (cases entry)
  let ?doc1 = "replace_all tag (expand cfg template) doc"
  let ?m = "select_all tag doc \<noteq> []"
  let ?fs = "expansions cfg T"
  have fs: "expansions cfg (entry # T) = (tag, expand cfg template) # ?fs"
    by (simp add: expansions_def entry)
  show ?case
  proof (cases "?m \<and> tag \<notin> P0")
    case True
    let ?css1 = "css0 @ styleSheetPreprocessor cfg (stylesheet_path template)"
    have step: "transform_tag cfg entry (doc, css0, did0, P0) = (?doc1, ?css1, True, insert tag P0)"
      using True by (simp add: transform_tag_def entry Let_def)
    from Cons.prems have "fold (transform_tag cfg) T (?doc1, ?css1, True, insert tag P0) = (doc', css', did', P')"
      by (simp add: step)
    from Cons.IH[OF this] obtain es where
      a: "doc' = pass_doc ?fs ?doc1" "did' = True" "P' = insert tag P0 \<union> set (pass_matched ?fs ?doc1)"
      and es: "set es \<subseteq> set T" "distinct (map fst es)"
         "fst ` set es = set (pass_matched ?fs ?doc1) - insert tag P0" "css' = ?css1 @ sheets cfg es"
      by auto
    have "set ((tag, template) # es) \<subseteq> set (entry # T)" using es(1) entry by auto
    moreover have "distinct (map fst ((tag, template) # es))" using es(2,3) by auto
    moreover have "fst ` set ((tag, template) # es) = set (pass_matched (expansions cfg (entry # T)) doc) - P0"
      using es(3) True by (auto simp: fs)
    moreover have "css' = css0 @ sheets cfg ((tag, template) # es)"
      using es(4) by (simp add: sheets_def)
    ultimately have "\<exists>es. set es \<subseteq> set (entry # T) \<and> distinct (map fst es) \<and>
        fst ` set es = set (pass_matched (expansions cfg (entry # T)) doc) - P0 \<and> css' = css0 @ sheets cfg es"
      by blast
    then show ?thesis using a True by (auto simp: fs)
  next
    case False
    have step: "transform_tag cfg entry (doc, css0, did0, P0) = (?doc1, css0, did0 \<or> ?m, P0)"
      using False by (auto simp add: transform_tag_def entry Let_def)
    from Cons.prems have "fold (transform_tag cfg) T (?doc1, css0, did0 \<or> ?m, P0) = (doc', css', did', P')"
      by (simp add: step)
    from Cons.IH[OF this] obtain es where
      a: "doc' = pass_doc ?fs ?doc1" "did' = ((did0 \<or> ?m) \<or> pass_matched ?fs ?doc1 \<noteq> [])"
         "P' = P0 \<union> set (pass_matched ?fs ?doc1)"
      and es: "set es \<subseteq> set T" "distinct (map fst es)"
         "fst ` set es = set (pass_matched ?fs ?doc1) - P0" "css' = css0 @ sheets cfg es"
      by auto
    have "fst ` set es = set (pass_matched (expansions cfg (entry # T)) doc) - P0"
      using es(3) False by (auto simp: fs)
    with es have "\<exists>es. set es \<subseteq> set (entry # T) \<and> distinct (map fst es) \<and>
        fst ` set es = set (pass_matched (expansions cfg (entry # T)) doc) - P0 \<and> css' = css0 @ sheets cfg es"
      by (intro exI[of _ es]) auto
    then show ?thesis using a False by (auto simp: fs)
  qed
qed

lemma transform_loop_sheets:
  "transform_loop fuel cfg T doc css0 P0 = Some (doc', css', P') \<Longrightarrow>
   P' = P0 \<union> used_tags fuel (expansions cfg T) doc \<and>
   (\<exists>es. set es \<subseteq> set T \<and> distinct (map fst es) \<and>
         fst ` set es = used_tags fuel (expansions cfg T) doc - P0 \<and>
         css' = css0 @ sheets cfg es)"
proof (induction fuel arbitrary: doc css0 P0)
  case 0
  then show ?case by simp
next
  case (Suc fuel)
  let ?fs = "expansions cfg T"
  obtain d1 c1 t1 P1 where tr: "transform cfg T doc P0 = (d1, c1, t1, P1)"
    by (cases "transform cfg T doc P0") auto
  from fold_transform_tag[OF tr[unfolded transform_def]] obtain es1 where
    a: "d1 = pass_doc ?fs doc" "t1 = (pass_matched ?fs doc \<noteq> [])" "P1 = P0 \<union> set (pass_matched ?fs doc)"
    and es1: "set es1 \<subseteq> set T" "distinct (map fst es1)"
      "fst ` set es1 = set (pass_matched ?fs doc) - P0" "c1 = sheets cfg es1"
    by auto
  show ?case
  proof (cases t1)
    case False
    with Suc.prems tr have "doc' = d1" "css' = css0 @ c1" "P' = P1" by auto
    with a es1 False show ?thesis by (auto intro!: exI[of _ es1])
  next
    case True
    with Suc.prems tr have "transform_loop fuel cfg T d1 (css0 @ c1) P1 = Some (doc', css', P')" by simp
    from Suc.IH[OF this] obtain es2 where
      b: "P' = P1 \<union> used_tags fuel ?fs d1"
      and es2: "set es2 \<subseteq> set T" "distinct (map fst es2)"
        "fst ` set es2 = used_tags fuel ?fs d1 - P1" "css' = (css0 @ c1) @ sheets cfg es2"
      by auto
    have u: "used_tags (Suc fuel) ?fs doc = set (pass_matched ?fs doc) \<union> used_tags fuel ?fs d1"
      using True a by simp
    have "set (es1 @ es2) \<subseteq> set T" using es1(1) es2(1) by simp
    moreover have "distinct (map fst (es1 @ es2))"
      using es1(2,3) es2(2,3) a(3) by auto
    moreover have "fst ` set (es1 @ es2) = used_tags (Suc fuel) ?fs doc - P0"
    proof -
      have "fst ` set (es1 @ es2) = fst ` set es1 \<union> fst ` set es2" by (simp add: image_Un)
      then show ?thesis unfolding u es1(3) es2(3) a(3) by blast
    qed
    moreover have "css' = css0 @ sheets cfg (es1 @ es2)"
      using es2(4) es1(4) by (simp add: sheets_append)
    ultimately have "\<exists>es. set es \<subseteq> set T \<and> distinct (map fst es) \<and>
        fst ` set es = used_tags (Suc fuel) ?fs doc - P0 \<and> css' = css0 @ sheets cfg es"
      by blast
    moreover have "P' = P0 \<union> used_tags (Suc fuel) ?fs doc"
      unfolding u using b a(3) by auto
    ultimately show ?thesis by blast
  qed
qed

lemma transform1_tag_Inr:
  assumes "transform1_tag cfg hea matter T (tag, template) (doc, css0, did0, P0) = Inr (doc', css', did', P')"
  shows "doc' = replace_all tag (\<lambda>el. expansion_of (expand1 cfg hea T (fm_content (matter template)) el)) doc"
    and "did' = (did0 \<or> select_all tag doc \<noteq> [])"
    and "(select_all tag doc \<noteq> [] \<and> map_of (fm_data (matter template)) ''stylesheet'' \<noteq> None \<and> tag \<notin> P0
            \<and> P' = insert tag P0 \<and> css' = css0 @ sheets1 cfg matter [(tag, template)])
         \<or> (\<not> (select_all tag doc \<noteq> [] \<and> map_of (fm_data (matter template)) ''stylesheet'' \<noteq> None \<and> tag \<notin> P0)
            \<and> P' = P0 \<and> css' = css0)"
  using assms
  by (auto simp: transform1_tag_def sheets1_def Let_def split: option.splits if_splits)

lemma transform1_entries_sheets:
  "distinct (map fst Ts) \<Longrightarrow>
   transform1_entries cfg hea matter T Ts (doc, css0, did0, P0) = Inr (doc', css', did', P') \<Longrightarrow>
   doc' = pass_doc (expansions1 cfg hea matter T Ts) doc \<and>
   did' = (did0 \<or> pass_matched (expansions1 cfg hea matter T Ts) doc \<noteq> []) \<and>
   (\<exists>es. set es \<subseteq> set Ts \<and> distinct (map fst es) \<and>
        fst ` set es = set (pass_matched (expansions1 cfg hea matter T Ts) doc) \<inter> set (styled_tags matter Ts) - P0 \<and>
        P' = P0 \<union> fst ` set es \<and> css' = css0 @ sheets1 cfg matter es)"
proof (induction Ts arbitrary: doc css0 did0 P0)
  case Nil
  then show ?case by (auto simp: sheets1_def expansions1_def intro: exI[of _ "[]"])
next
  case (Cons entry Ts)
  obtain tag template where entry: "entry = (tag, template)" by (cases entry)
  let ?f = "\<lambda>el. expansion_of (expand1 cfg hea T (fm_content (matter template)) el)"
  let ?fs = "expansions1 cfg hea matter T Ts"
  let ?m = "select_all tag doc \<noteq> []"
  let ?styled = "map_of (fm_data (matter template)) ''stylesheet'' \<noteq> None"
  have fs: "expansions1 cfg hea matter T (entry # Ts) = (tag, ?f) # ?fs"
    by (simp add: expansions1_def entry)
  have st: "styled_tags matter (entry # Ts) = (if ?styled then [tag] else []) @ styled_tags matter Ts"
    by (simp add: styled_tags_def entry)
  have fresh: "tag \<notin> fst ` set Ts" and dist: "distinct (map fst Ts)"
    using Cons.prems(1) by (auto simp: entry)
  have sub1: "set (pass_matched ?fs (replace_all tag ?f doc)) \<subseteq> fst ` set Ts"
    using pass_matched_subset[of ?fs "replace_all tag ?f doc"]
      fst_expansions1[of cfg hea matter T Ts] by (metis list.set_map)
  have sub2: "set (styled_tags matter Ts) \<subseteq> fst ` set Ts"
    by (auto simp: styled_tags_def)
  from Cons.prems(2) obtain d1 c1 t1 P1 where
    step: "transform1_tag cfg hea matter T (tag, template) (doc, css0, did0, P0) = Inr (d1, c1, t1, P1)"
    and rest: "transform1_entries cfg hea matter T Ts (d1, c1, t1, P1) = Inr (doc', css', did', P')"
    by (auto simp: entry split: sum.splits)
  note s = transform1_tag_Inr[OF step]
  from Cons.IH[OF dist rest] obtain es where
    a: "doc' = pass_doc ?fs d1" "did' = (t1 \<or> pass_matched ?fs d1 \<noteq> [])"
    and es: "set es \<subseteq> set Ts" "distinct (map fst es)"
        "fst ` set es = set (pass_matched ?fs d1) \<inter> set (styled_tags matter Ts) - P1"
        "P' = P1 \<union> fst ` set es" "css' = c1 @ sheets1 cfg matter es"
    by auto
  have doc: "doc' = pass_doc (expansions1 cfg hea matter T (entry # Ts)) doc"
    using a(1) s(1) by (simp add: fs)
  have did: "did' = (did0 \<or> pass_matched (expansions1 cfg hea matter T (entry # Ts)) doc \<noteq> [])"
    using a(2) s(1,2) by (auto simp: fs)
  from s(3) show ?case
  proof
    assume c: "?m \<and> ?styled \<and> tag \<notin> P0 \<and> P1 = insert tag P0 \<and> c1 = css0 @ sheets1 cfg matter [(tag, template)]"
    have "set ((tag, template) # es) \<subseteq> set (entry # Ts)" using es(1) entry by auto
    moreover have "distinct (map fst ((tag, template) # es))" using es(1,2) fresh by auto
    moreover have "fst ` set ((tag, template) # es) =
        set (pass_matched (expansions1 cfg hea matter T (entry # Ts)) doc) \<inter> set (styled_tags matter (entry # Ts)) - P0"
      using es(3) c s(1) sub1 sub2 fresh unfolding fs st by auto
    moreover have "P' = P0 \<union> fst ` set ((tag, template) # es)" using es(4) c by auto
    moreover have "css' = css0 @ sheets1 cfg matter ((tag, template) # es)"
      using es(5) c by (simp add: sheets1_def)
    ultimately show ?thesis using doc did by blast
  next
    assume c: "\<not> (?m \<and> ?styled \<and> tag \<notin> P0) \<and> P1 = P0 \<and> c1 = css0"
    have "fst ` set es =
        set (pass_matched (expansions1 cfg hea matter T (entry # Ts)) doc) \<inter> set (styled_tags matter (entry # Ts)) - P0"
      using es(3) c s(1) sub1 sub2 fresh unfolding fs st by auto
    moreover have "set es \<subseteq> set (entry # Ts)" using es(1) by auto
    moreover have "P' = P0 \<union> fst ` set es" using es(4) c by simp
    moreover have "css' = css0 @ sheets1 cfg matter es" using es(5) c by simp
    ultimately show ?thesis using doc did es(2) by blast
  qed
qed


lemma transform1_loop_sheets:
  "distinct (map fst T) \<Longrightarrow>
   transform1_loop fuel cfg hea matter T doc css0 P0 = Some (Inr (doc', css', P')) \<Longrightarrow>
   \<exists>es. set es \<subseteq> set T \<and> distinct (map fst es) \<and>
        fst ` set es = used_tags fuel (expansions1 cfg hea matter T T) doc \<inter> set (styled_tags matter T) - P0 \<and>
        P' = P0 \<union> fst ` set es \<and> css' = css0 @ sheets1 cfg matter es"
proof (induction fuel arbitrary: doc css0 P0)
  case 0
  then show ?case by simp
next
  case (Suc fuel)
  let ?fs = "expansions1 cfg hea matter T T"
  let ?S = "set (styled_tags matter T)"
  from Suc.prems(2) obtain d1 c1 t1 P1 where
    tr: "transform1 cfg hea matter T doc P0 = Inr (d1, c1, t1, P1)"
    by (auto split: sum.splits)
  from transform1_entries_sheets[OF Suc.prems(1) tr[unfolded transform1_def]] obtain es1 where
    a: "d1 = pass_doc ?fs doc" "t1 = (pass_matched ?fs doc \<noteq> [])"
    and es1: "set es1 \<subseteq> set T" "distinct (map fst es1)"
         "fst ` set es1 = set (pass_matched ?fs doc) \<inter> ?S - P0"
         "P1 = P0 \<union> fst ` set es1" "c1 = sheets1 cfg matter es1"
    by auto
  show ?case
  proof (cases t1)
    case False
    with Suc.prems(2) tr have "css' = css0 @ c1" "P' = P1" by auto
    moreover have "used_tags (Suc fuel) ?fs doc = set (pass_matched ?fs doc)"
      using False a by simp
    ultimately show ?thesis using es1 by (intro exI[of _ es1]) simp
  next
    case True
    with Suc.prems(2) tr
    have "transform1_loop fuel cfg hea matter T d1 (css0 @ c1) P1 = Some (Inr (doc', css', P'))"
      by simp
    from Suc.IH[OF Suc.prems(1) this] obtain es2 where
      es2: "set es2 \<subseteq> set T" "distinct (map fst es2)"
           "fst ` set es2 = used_tags fuel ?fs d1 \<inter> ?S - P1"
           "P' = P1 \<union> fst ` set es2" "css' = (css0 @ c1) @ sheets1 cfg matter es2"
      by auto
    have u: "used_tags (Suc fuel) ?fs doc = set (pass_matched ?fs doc) \<union> used_tags fuel ?fs d1"
      using True a by simp
    have im: "fst ` set (es1 @ es2) = fst ` set es1 \<union> fst ` set es2" by (simp add: image_Un)
    have "set (es1 @ es2) \<subseteq> set T" using es1(1) es2(1) by simp
    moreover have "distinct (map fst (es1 @ es2))" using es1(2,4) es2(2,3) by auto
    moreover have "fst ` set (es1 @ es2) = used_tags (Suc fuel) ?fs doc \<inter> ?S - P0"
      unfolding im u es1(3) es2(3) es1(4) by blast
    moreover have "P' = P0 \<union> fst ` set (es1 @ es2)"
      unfolding im using es1(4) es2(4) by blast
    moreover have "css' = css0 @ sheets1 cfg matter (es1 @ es2)"
      using es2(5) es1(5) by (simp add: sheets1_append)
    ultimately show ?thesis by blast
  qed
qed

text \<open>
  C4.  However often a tag is used in a document, in how many elements and over how
  many passes, its compiled stylesheet is in the accumulated CSS exactly once.  When the loop
  of src/index.ts ends, the accumulated CSS is the concatenation of the stylesheets of a list
  of registry entries with distinct tags, and these tags are exactly the used ones: those
  that had a match when their turn came in some pass.  The same holds for the draft (whose
  registry, an object, has distinct keys), for the used tags that declare a stylesheet.
\<close>

theorem stylesheet_once:
  "(transform_loop fuel cfg T doc [] {} = Some (doc', css, P) \<longrightarrow>
      (\<exists>es. set es \<subseteq> set T \<and> distinct (map fst es)
            \<and> fst ` set es = used_tags fuel (expansions cfg T) doc
            \<and> css = sheets cfg es))
   \<and> (distinct (map fst T1) \<and>
       transform1_loop fuel cfg hea matter T1 doc [] {} = Some (Inr (doc1, css1, P1)) \<longrightarrow>
      (\<exists>es. set es \<subseteq> set T1 \<and> distinct (map fst es)
            \<and> fst ` set es = used_tags fuel (expansions1 cfg hea matter T1 T1) doc \<inter> set (styled_tags matter T1)
            \<and> css1 = sheets1 cfg matter es))"
proof (intro conjI impI)
  assume "transform_loop fuel cfg T doc [] {} = Some (doc', css, P)"
  from transform_loop_sheets[OF this]
  show "\<exists>es. set es \<subseteq> set T \<and> distinct (map fst es)
            \<and> fst ` set es = used_tags fuel (expansions cfg T) doc \<and> css = sheets cfg es"
    by simp
next
  assume "distinct (map fst T1) \<and>
       transform1_loop fuel cfg hea matter T1 doc [] {} = Some (Inr (doc1, css1, P1))"
  then have d: "distinct (map fst T1)"
    and l: "transform1_loop fuel cfg hea matter T1 doc [] {} = Some (Inr (doc1, css1, P1))"
    by simp_all
  from transform1_loop_sheets[OF d l]
  show "\<exists>es. set es \<subseteq> set T1 \<and> distinct (map fst es)
            \<and> fst ` set es = used_tags fuel (expansions1 cfg hea matter T1 T1) doc \<inter> set (styled_tags matter T1)
            \<and> css1 = sheets1 cfg matter es"
    by auto
qed

lemma two_cards_loop:
  "transform_loop 3 ex_cfg [(''Card'', ex_card)] two_cards [] {}
     = Some (ex_doc [Element ''style'' [] []]
               [Element ''div'' [(''class'', ''card'')] [Element ''div'' [(''class'', ''card'')] [Text ''in'']],
                Element ''div'' [(''class'', ''card'')] [Text ''World'']],
             ''/* card.css */'', {''Card''})"
  by (simp add: pass_defs numeral_3_eq_3 ex_defs)

lemma two_cards_loop1:
  "transform1_loop 3 ex_cfg ex_hea ex_matter [(''Card'', card_src)] two_cards [] {}
     = Some (Inr (ex_doc [Element ''style'' [] []]
               [Element ''div'' [(''class'', ''card'')] [Element ''div'' [(''class'', ''card'')] [Text ''in'']],
                Element ''div'' [(''class'', ''card'')] [Text ''World'']],
             ''/* card.css */'', {''Card''}))"
  by (simp add: pass1_defs numeral_3_eq_3 ex_defs)

theorem stylesheet_once_witness:
  "transform_loop 3 ex_cfg [(''Card'', ex_card)] two_cards [] {}
     = Some (ex_doc [Element ''style'' [] []]
               [Element ''div'' [(''class'', ''card'')] [Element ''div'' [(''class'', ''card'')] [Text ''in'']],
                Element ''div'' [(''class'', ''card'')] [Text ''World'']],
             ''/* card.css */'', {''Card''})
   \<and> (\<exists>es. set es \<subseteq> set [(''Card'', ex_card)] \<and> distinct (map fst es)
         \<and> fst ` set es = used_tags 3 (expansions ex_cfg [(''Card'', ex_card)]) two_cards
         \<and> ''/* card.css */'' = sheets ex_cfg es)
   \<and> distinct (map fst [(''Card'', card_src)])
   \<and> transform1_loop 3 ex_cfg ex_hea ex_matter [(''Card'', card_src)] two_cards [] {}
     = Some (Inr (ex_doc [Element ''style'' [] []]
               [Element ''div'' [(''class'', ''card'')] [Element ''div'' [(''class'', ''card'')] [Text ''in'']],
                Element ''div'' [(''class'', ''card'')] [Text ''World'']],
             ''/* card.css */'', {''Card''}))
   \<and> (\<exists>es. set es \<subseteq> set [(''Card'', card_src)] \<and> distinct (map fst es)
         \<and> fst ` set es = used_tags 3 (expansions1 ex_cfg ex_hea ex_matter [(''Card'', card_src)] [(''Card'', card_src)]) two_cards
                          \<inter> set (styled_tags ex_matter [(''Card'', card_src)])
         \<and> ''/* card.css */'' = sheets1 ex_cfg ex_matter es)"
  using stylesheet_once[of 3 ex_cfg "[(''Card'', ex_card)]" two_cards _ "''/* card.css */''" "{''Card''}"
      "[(''Card'', card_src)]" ex_hea ex_matter _ "''/* card.css */''" "{''Card''}"]
    two_cards_loop two_cards_loop1
  by simp

section \<open>C5 and C8: registration\<close>

lemma new_TagTemplate_untagged:
  "map_of (fm_data (matter contents)) ''tag'' = None \<Longrightarrow>
   new_TagTemplate matter template_filepath contents = Inl TypeError"
  by (simp add: new_TagTemplate_def js_index_def Let_def)
lemma update_fresh: "map_of T k = None \<Longrightarrow> AList.update k v T = T @ [(k, v)]"
  by (induction T) (auto split: if_splits)

lemma add_template_duplicate:
  "map_of T (registered_name matter template default_tag_name) \<noteq> None
   \<Longrightarrow> \<exists>msg. add_template matter T template default_tag_name = Inl (Error msg)"
  by (cases "map_of (fm_data (matter template)) ''tag''")
     (simp_all add: add_template_def registered_name_def)

lemma add_template_fresh:
  "map_of T (registered_name matter template default_tag_name) = None
   \<Longrightarrow> add_template matter T template default_tag_name =
       Inr (T @ [(registered_name matter template default_tag_name, template)])"
  by (cases "map_of (fm_data (matter template)) ''tag''")
     (simp_all add: add_template_def registered_name_def update_fresh)

lemma process_template_directory_tagged:
  "template_suffix filename \<Longrightarrow> map_of (fm_data (matter contents)) ''tag'' = Some tg \<Longrightarrow>
   process_template_directory matter dir [File filename contents] T
     = Inr (AList.update tg
              \<lparr>tag_name = tg, template_content = fm_content (matter contents),
               stylesheet_path = (case map_of (fm_data (matter contents)) ''stylesheet'' of
                                    None \<Rightarrow> [] | Some p \<Rightarrow> p)\<rparr> T)"
  by (simp add: new_TagTemplate_def Let_def)

lemma file_stem_example: "file_stem ''button.njk'' = ''button''"
  by (simp add: file_stem_def)

text \<open>
  C5.  The claim: registering a definition under a tag name that is already present
  fails and leaves the registry as it was; a fresh name is inserted.  \<open>add_template\<close> of the
  draft does exactly this (\<open>add_template_duplicate\<close>, \<open>add_template_fresh\<close>).  The loader of
  src/index.ts assigns \<^verbatim>\<open>this.templates[template.tagname()] = template\<close> with no test: the
  second definition replaces the first.  Evaluated on a directory with two files that both
  declare the tag \<open>Card\<close>.
\<close>

theorem duplicate_tag_overwrites:
  "process_template_directory ex_matter ''templates''
       [File ''card.njk'' card_src, File ''panel.njk'' panel_src] []
     = Inr [(''Card'', \<lparr>tag_name = ''Card'', template_content = panel_src, stylesheet_path = []\<rparr>)]
   \<and> process_template_directory1 ex_matter ''templates''
       [File ''card.njk'' card_src, File ''panel.njk'' panel_src] []
     = Inl (Error ''There is already a tag template named Card'')"
  by (simp add: new_TagTemplate_def template_suffix_def endsWith_def add_template_def ex_defs)

text \<open>
  C8.  The claim: a template file without a \<open>tag\<close> in its front matter is registered
  under its base name without the extension.  The loader of the draft does so for
  \<^verbatim>\<open>button.njk\<close>.  The constructor of \<open>TagTemplate\<close> in src/index.ts indexes the path
  segments with \<^verbatim>\<open>[-1]\<close>, which is \<^verbatim>\<open>undefined\<close>, and throws a TypeError
  (\<open>new_TagTemplate_untagged\<close>): no such file can be loaded.
\<close>

theorem untagged_template_throws:
  "new_TagTemplate ex_matter ''templates/button.njk'' button_src = Inl TypeError
   \<and> process_template_directory ex_matter ''templates'' [File ''button.njk'' button_src] [] = Inl TypeError
   \<and> process_template_directory1 ex_matter ''templates'' [File ''button.njk'' button_src] []
       = Inr [(''button'', button_src)]"
  by (simp add: new_TagTemplate_def js_index_def template_suffix_def endsWith_def add_template_def
      file_stem_def ex_defs)

section \<open>C6: attributes that are not forwarded\<close>


lemma top_element_set_top_attribs:
  "top_element h = Some (n, a) \<Longrightarrow> top_element (set_top_attribs a' h) = Some (n, a')"
  by (induction h rule: top_element.induct) auto

lemma forward_attribute_frame:
  "map_of T n = None \<Longrightarrow> k \<notin> set (allowed_attributes hea n) \<Longrightarrow>
   map_of (fold (\<lambda>entry acc. forward_attribute hea T n acc entry) attributes a) k = map_of a k"
proof (induction attributes arbitrary: a)
  case Nil
  then show ?case by simp
next
  case (Cons entry attributes)
  obtain attr v where entry: "entry = (attr, v)" by (cases entry)
  have "map_of (forward_attribute hea T n a entry) k = map_of a k"
    using Cons.prems by (auto simp: forward_attribute_def entry update_conv')
  with Cons show ?case by simp
qed

text \<open>
  The first draft leaves such an attribute alone in the same way, but throws when the root's
  name is not in the table.
\<close>

lemma forward_entries0_frame:
  "forward_entries0 hea n a attributes = Inr a' \<Longrightarrow> k \<notin> set (allowed_attributes hea n) \<Longrightarrow>
   map_of a' k = map_of a k"
proof (induction attributes arbitrary: a)
  case Nil
  then show ?case by simp
next
  case (Cons entry attributes)
  obtain attr v where entry: "entry = (attr, v)" by (cases entry)
  from Cons.prems(1) obtain a1 where
    step: "forward_attribute0 hea n a entry = Inr a1"
    and rest: "forward_entries0 hea n a1 attributes = Inr a'"
    by (auto split: sum.splits)
  have "map_of a1 k = map_of a k"
    using step Cons.prems(2)
    by (auto simp: forward_attribute0_def allowed_attributes_def entry update_conv'
        split: option.splits if_splits)
  with Cons.IH[OF rest Cons.prems(2)] show ?case by simp
qed

lemma unknown_root_example:
  "forward_html_attributes0 ex_hea [Element ''section'' [] []] [(''title'', ''x'')] = Inl TypeError
   \<and> forward_html_attributes ex_hea [] [Element ''section'' [] []] [(''title'', ''x'')]
       = Inr [Element ''section'' [(''title'', ''x'')] []]"
  by (simp add: forward_html_attributes0_def forward_html_attributes_def root_children_def
      forward_attribute0_def forward_attribute_def allowed_attributes_def merge_class_id_def ex_defs)

lemma render_variables_lookup:
  "k \<noteq> ''content'' \<Longrightarrow> map_of (render_variables attributes h) k = map_option Str (map_of attributes k)"
  by (simp add: render_variables_def update_conv' map_of_map)

text \<open>
  C6 as claimed: a usage attribute outside the allowed set of a root that is not a
  template tag is absent from the final fragment's attributes, and is passed to the renderer
  as a variable.  It is not absent when the rendered root defines an attribute of that name
  itself: \<open>role\<close> is not allowed on \<open>div\<close>, and the final root still has the \<open>role\<close> its
  template wrote.  And a usage attribute named \<open>content\<close> is not passed on: the variable
  \<open>content\<close> is the inner HTML of the usage element.
\<close>

theorem unlisted_attribute_counterexample:
  "''role'' \<notin> set (allowed_attributes ex_hea ''div'')
   \<and> map_of ([] :: raw_templates) ''div'' = None
   \<and> forward_html_attributes ex_hea [] [Element ''div'' [(''role'', ''alert'')] []] [(''role'', ''status'')]
       = Inr [Element ''div'' [(''role'', ''alert'')] []]
   \<and> ''content'' \<notin> set (allowed_attributes ex_hea ''div'')
   \<and> map_of (render_variables [(''content'', ''x'')] [Text ''inner'']) ''content''
       = Some (Html [Text ''inner''])"
  by (simp add: forward_html_attributes_def root_children_def forward_attribute_def
      allowed_attributes_def render_variables_def ex_defs)

text \<open>
  C6, amended.  For a usage attribute \<open>k\<close> outside the allowed set of the rendered root
  \<open>n\<close>, where \<open>n\<close> is not a registered tag, forwarding changes nothing but the root's
  attributes and leaves the root's value for \<open>k\<close> as the rendered body had it (so \<open>k\<close> is
  absent unless the template's root defines it); and unless \<open>k\<close> is the reserved name
  \<open>content\<close>, the renderer got the usage value as the variable \<open>k\<close>.
\<close>

theorem unlisted_attribute_not_forwarded:
  assumes "each_callback1 cfg hea T body (Some attributes) el_html = Inr fragment"
    and "top_element (renderString cfg body (render_variables attributes el_html)) = Some (n, a)"
    and "map_of T n = None"
    and "k \<notin> set (allowed_attributes hea n)"
    and "map_of attributes k = Some v"
  shows "(\<exists>a'. top_element fragment = Some (n, a') \<and> map_of a' k = map_of a k
              \<and> fragment = set_top_attribs a' (renderString cfg body (render_variables attributes el_html)))
         \<and> (k \<noteq> ''content'' \<longrightarrow> map_of (render_variables attributes el_html) k = Some (Str v))"
proof -
  let ?expansion = "renderString cfg body (render_variables attributes el_html)"
  let ?a' = "fold (\<lambda>entry acc. forward_attribute hea T n acc entry) attributes a"
  from assms(1,2) have frag: "fragment = set_top_attribs ?a' ?expansion"
    by (simp add: each_callback1_def forward_html_attributes_def Let_def split: if_splits)
  have "top_element fragment = Some (n, ?a')"
    unfolding frag using assms(2) by (rule top_element_set_top_attribs)
  moreover have "map_of ?a' k = map_of a k"
    using assms(3,4) by (rule forward_attribute_frame)
  moreover have "k \<noteq> ''content'' \<longrightarrow> map_of (render_variables attributes el_html) k = Some (Str v)"
    using assms(5) by (simp add: render_variables_lookup)
  ultimately show ?thesis using frag by blast
qed

theorem unlisted_attribute_not_forwarded_witness:
  "each_callback1 ex_cfg ex_hea [(''Card'', card_src)] card_src
       (Some [(''title'', ''Hi''), (''role'', ''status'')]) [Text ''World'']
     = Inr [Element ''div'' [(''class'', ''card''), (''title'', ''Hi'')] [Text ''World'']]
   \<and> top_element (renderString ex_cfg card_src
        (render_variables [(''title'', ''Hi''), (''role'', ''status'')] [Text ''World'']))
     = Some (''div'', [(''class'', ''card'')])
   \<and> map_of [(''Card'', card_src)] ''div'' = None
   \<and> ''role'' \<notin> set (allowed_attributes ex_hea ''div'')
   \<and> (\<exists>a'. top_element [Element ''div'' [(''class'', ''card''), (''title'', ''Hi'')] [Text ''World'']]
               = Some (''div'', a') \<and> map_of a' ''role'' = None)
   \<and> map_of (render_variables [(''title'', ''Hi''), (''role'', ''status'')] [Text ''World'']) ''role''
       = Some (Str ''status'')"
proof -
  have h1: "each_callback1 ex_cfg ex_hea [(''Card'', card_src)] card_src
       (Some [(''title'', ''Hi''), (''role'', ''status'')]) [Text ''World'']
     = Inr [Element ''div'' [(''class'', ''card''), (''title'', ''Hi'')] [Text ''World'']]"
    by (simp add: each_callback1_def forward_html_attributes_def root_children_def
        forward_attribute_def allowed_attributes_def merge_class_id_def render_variables_def ex_defs)
  have h2: "top_element (renderString ex_cfg card_src
        (render_variables [(''title'', ''Hi''), (''role'', ''status'')] [Text ''World'']))
     = Some (''div'', [(''class'', ''card'')])"
    by (simp add: render_variables_def ex_defs)
  have h3: "map_of [(''Card'', card_src)] ''div'' = None" by simp
  have h4: "''role'' \<notin> set (allowed_attributes ex_hea ''div'')"
    by (simp add: allowed_attributes_def ex_defs)
  have h5: "map_of [(''title'', ''Hi''), (''role'', ''status'')] ''role'' = Some ''status''" by simp
  have e: "\<exists>a'. top_element [Element ''div'' [(''class'', ''card''), (''title'', ''Hi'')] [Text ''World'']]
               = Some (''div'', a') \<and> map_of a' ''role'' = None"
    by simp
  have l: "map_of (render_variables [(''title'', ''Hi''), (''role'', ''status'')] [Text ''World'']) ''role''
       = Some (Str ''status'')"
    using unlisted_attribute_not_forwarded[OF h1 h2 h3 h4 h5] by simp
  show ?thesis
    by (intro conjI) (rule h1 h2 h3 h4 e l)+
qed

section \<open>C7: the number of passes\<close>












lemma usage_depth_Some: "r (toLowerCase n) = Some (s, c) \<Longrightarrow> usage_depth r n d = 1 + max s (c + d)"
  by (simp add: usage_depth_def)




lemma acyclic_shallower: "acyclic_usage fs r \<Longrightarrow> (tag, f) \<in> set fs \<Longrightarrow> shallower r tag f"
  unfolding acyclic_usage_def by fast




















text \<open>The template \<open>Card\<close> wraps the content in a \<open>div\<close>: profile \<open>(0, 0)\<close>.\<close>

lemma ex_content_variables:
  "ex_content (AList.update ''forward'' fw (render_variables a kids)) = kids"
  "ex_content (render_variables a kids) = kids"
  by (simp_all add: ex_content_def render_variables_def update_conv')


lemma nesting_depth_set_top_attribs: "nesting_depth r (set_top_attribs a h) = nesting_depth r h"
  by (induction a h rule: set_top_attribs.induct) (auto simp: nesting_depth_def)








text \<open>
  The bound is the depth of the usage tree also when a body nests a template beside the
  content.  \<open>Box\<close> renders \<^verbatim>\<open><div><Icon></Icon>{{ content }}</div>\<close>; in
  \<^verbatim>\<open><box><note>x</note></box>\<close> the usages of \<open>Icon\<close> and \<open>Note\<close> are both one level below that of
  \<open>Box\<close>.  The depth is 2 and, with \<open>Icon\<close> first in the registry, the third pass is needed.
\<close>

lemma box_acyclic: "acyclic_usage (expansions ex_cfg box_registry) box_profile"
  by (simp add: acyclic_usage_def shallower_def expansions_def expand_def each_callback_def
      nesting_depth_def usage_depth_def ex_content_variables ex_render_def ex_cfg_def
      ex_box_def ex_icon_def ex_note_def box_registry_def box_profile_def
      box_src_def icon_src_def note_src_def card_src_def panel_src_def pair_src_def button_src_def
      lower_names)

lemma boxed_note_depth: "nesting_depth box_profile boxed_note = 2"
  by (simp add: nesting_depth_def usage_depth_def boxed_note_def ex_doc_def box_profile_def lower_simps)

lemmas box_defs = box_registry_def boxed_note_def ex_box_def ex_icon_def ex_note_def
  box_src_def icon_src_def note_src_def

lemma boxed_note_needs_three:
  "transform_loop 2 ex_cfg box_registry boxed_note [] {} = None
   \<and> transform_loop 3 ex_cfg box_registry boxed_note [] {}
     = Some (ex_doc [Element ''style'' [] []]
               [Element ''div'' [] [Element ''i'' [] [], Element ''span'' [] [Text ''x'']]],
             ''/*  *//*  *//*  */'', {''Icon'', ''Box'', ''Note''})"
  by (simp add: pass_defs numeral_2_eq_2 numeral_3_eq_3 ex_defs box_defs)

text \<open>
  A template \<open>Button\<close> whose body is a \<^verbatim>\<open><button>\<close> element has no profile: the selector
  \<^verbatim>\<open>$("Button")\<close> selects the root of its own expansion, and the loop never ends.
\<close>

lemma button_not_acyclic: "\<not> acyclic_usage (expansions ex_cfg [(''Button'', ex_button)]) r"
proof
  assume ac: "acyclic_usage (expansions ex_cfg [(''Button'', ex_button)]) r"
  have m: "(''Button'', expand ex_cfg ex_button) \<in> set (expansions ex_cfg [(''Button'', ex_button)])"
    by (simp add: expansions_def)
  have "toLowerCase ''button'' = toLowerCase ''Button''" by (simp add: lower_names)
  with acyclic_shallower[OF ac m]
  have "nesting_depth r (expand ex_cfg ex_button (Element ''button'' [] []))
          < weight r (Element ''button'' [] [])"
    unfolding shallower_def by blast
  moreover have "expand ex_cfg ex_button (Element ''button'' [] []) = [Element ''button'' [(''class'', ''btn'')] []]"
    by (simp add: expand_def each_callback_def render_variables_def ex_label_def ex_button_def ex_defs)
  ultimately show False by (simp add: nesting_depth_def)
qed

lemma button_pass:
  "\<exists>css' P'. transform ex_cfg [(''Button'', ex_button)] button_doc P = (button_doc, css', True, P')"
  by (simp add: pass_defs button_doc_def ex_label_def ex_button_def ex_defs Let_def)

lemma button_loops: "transform_loop fuel ex_cfg [(''Button'', ex_button)] button_doc css P = None"
proof (induction fuel arbitrary: css P)
  case 0
  then show ?case by simp
next
  case (Suc fuel)
  from button_pass[of P] obtain css' P' where
    "transform ex_cfg [(''Button'', ex_button)] button_doc P = (button_doc, css', True, P')" by blast
  then show ?case using Suc.IH by simp
qed

section \<open>C9: no attributes and the empty mapping\<close>



lemma each_callback_no_attributes:
  "each_callback cfg template None h = each_callback cfg template (Some []) h"
  by (simp add: each_callback_def)




section \<open>C10: the forward helper\<close>

lemma forward_keys_snoc: "forward_keys A (ks @ [k]) = forward_key A (forward_keys A ks) k"
  by (simp add: forward_keys_def)

lemma forward_keys_star:
  "set (forward_keys A (ks @ [''*''])) = set (forward_keys A ks) \<union> fst ` set A"
  by (simp add: forward_keys_snoc forward_key_def set_fold_set_add)

lemma forward_keys_exclude:
  "set (forward_keys A (ks @ [CHR ''!'' # k])) = set (forward_keys A ks) - {k}"
  by (auto simp add: forward_keys_snoc forward_key_def startsWith_def set_delete_def)

lemma forward_keys_plain:
  "plain_key k \<Longrightarrow> set (forward_keys A (ks @ [k])) = insert k (set (forward_keys A ks))"
  by (auto simp add: forward_keys_snoc forward_key_def plain_key_def set_add_def)

lemma forward_keys_all_plain: "list_all plain_key ks \<Longrightarrow> set (forward_keys A ks) = set ks"
proof (induction ks rule: rev_induct)
  case Nil
  then show ?case by (simp add: forward_keys_def)
next
  case (snoc k ks)
  then show ?case by (simp add: forward_keys_plain)
qed

lemma emit_all:
  "distinct (map fst A) \<Longrightarrow> set B \<subseteq> set A \<Longrightarrow>
   concat (map (\<lambda>key. case map_of A key of None \<Rightarrow> [] | Some v \<Rightarrow> [key @ ''='' @ v]) (map fst B))
     = map (\<lambda>(k, v). k @ ''='' @ v) B"
  by (induction B) auto

lemma forward_no_arguments:
  "distinct (map fst A) \<Longrightarrow> forward A [] = js_join '' '' (map (\<lambda>(k, v). k @ ''='' @ v) A)"
  using emit_all[of A A] fold_set_add_distinct[of "[]" "map fst A"]
  by (simp add: forward_def)

text \<open>
  C10.  For usage attributes \<open>A\<close> (an object: its keys are distinct), \<open>forward\<close> with no
  argument gives every entry as \<open>k=v\<close>, joined by spaces.  With arguments it gives the entries
  of the keys in \<open>forward_keys A ks\<close> that \<open>A\<close> has.  For arguments that all name keys these
  are the named keys; an argument \<^verbatim>\<open>"*"\<close> adds every key of \<open>A\<close> to the keys of the arguments
  before it, \<^verbatim>\<open>"!k"\<close> removes \<open>k\<close> from them, a name adds itself.  So \<^verbatim>\<open>forward("!k", "*")\<close>
  still forwards \<open>k\<close>, and \<^verbatim>\<open>forward("*", "!k")\<close> does not.
\<close>

theorem forward_helper:
  "(distinct (map fst A) \<longrightarrow>
      forward A [] = js_join '' '' (map (\<lambda>(k, v). k @ ''='' @ v) A))
   \<and> (ks \<noteq> [] \<longrightarrow>
      forward A ks =
        js_join '' '' (concat (map (\<lambda>key. case map_of A key of
                                              None \<Rightarrow> []
                                            | Some v \<Rightarrow> [key @ ''='' @ v]) (forward_keys A ks))))
   \<and> (list_all plain_key ks \<longrightarrow> set (forward_keys A ks) = set ks)
   \<and> set (forward_keys A (ks @ [''*''])) = set (forward_keys A ks) \<union> fst ` set A
   \<and> set (forward_keys A (ks @ [CHR ''!'' # k])) = set (forward_keys A ks) - {k}
   \<and> (plain_key k' \<longrightarrow> set (forward_keys A (ks @ [k'])) = insert k' (set (forward_keys A ks)))
   \<and> (k \<in> fst ` set A \<longrightarrow>
        k \<in> set (forward_keys A [CHR ''!'' # k, ''*''])
        \<and> k \<notin> set (forward_keys A [''*'', CHR ''!'' # k]))"
proof -
  have last: "k \<in> fst ` set A \<Longrightarrow>
      k \<in> set (forward_keys A [CHR ''!'' # k, ''*'']) \<and> k \<notin> set (forward_keys A [''*'', CHR ''!'' # k])"
    using forward_keys_star[of A "[CHR ''!'' # k]"] forward_keys_exclude[of A "[''*'']" k]
    by simp
  have second: "ks \<noteq> [] \<Longrightarrow> forward A ks =
        js_join '' '' (concat (map (\<lambda>key. case map_of A key of
                                              None \<Rightarrow> []
                                            | Some v \<Rightarrow> [key @ ''='' @ v]) (forward_keys A ks)))"
    by (simp add: forward_def)
  show ?thesis
    using forward_no_arguments[of A] second forward_keys_all_plain[of ks A] forward_keys_star[of A ks]
      forward_keys_exclude[of A ks k] forward_keys_plain[of k' A ks] last
    by blast
qed

theorem forward_helper_witness:
  "forward [(''label'', ''a''), (''name'', ''b'')] [] = ''label=a name=b''
   \<and> forward [(''label'', ''a''), (''name'', ''b'')] [''name'', ''href''] = ''name=b''
   \<and> set (forward_keys [(''label'', ''a''), (''name'', ''b'')] [''name'', ''href'']) = {''name'', ''href''}
   \<and> set (forward_keys [(''label'', ''a''), (''name'', ''b'')] [''name'', ''href'', ''*''])
        = {''name'', ''href'', ''label''}
   \<and> set (forward_keys [(''label'', ''a''), (''name'', ''b'')] [''name'', ''href'', ''!name'']) = {''href''}
   \<and> set (forward_keys [(''label'', ''a''), (''name'', ''b'')] [''name'', ''href'', ''label''])
        = {''name'', ''href'', ''label''}
   \<and> ''name'' \<in> set (forward_keys [(''label'', ''a''), (''name'', ''b'')] [''!name'', ''*''])
   \<and> ''name'' \<notin> set (forward_keys [(''label'', ''a''), (''name'', ''b'')] [''*'', ''!name''])"
  using forward_helper[of "[(''label'', ''a''), (''name'', ''b'')]" "[''name'', ''href'']" "''name''" "''label''"]
  by (simp add: plain_key_def startsWith_def forward_def forward_keys_def forward_key_def set_add_def
      set_delete_def insert_commute)

end
